theory Spec2Isabelle
  imports Complex_Main
begin

section \<open>Values, errors and tensors\<close>

text \<open>
  The agent of \<^verbatim>\<open>src/dqn/agent.py\<close> computes on Python floats and torch tensors.
  Numbers are modelled as \<^typ>\<open>real\<close>: rounding, infinities and NaN are left out, and the
  place where Python \<^emph>\<open>raises\<close> on a float out of range (\<^verbatim>\<open>float ** int\<close>) is
  kept as an error branch. A tensor with the batch as its leading dimension is a list with
  one entry per sample; the parameters of a network are the list of its scalar parameters,
  in the order of \<^verbatim>\<open>parameters()\<close>. Every exception the code can raise is a value.
\<close>

datatype py_error =
    TypeError
  | ValueError
  | ZeroDivisionError
  | OverflowError
  | RuntimeError
  | FileNotFoundError

text \<open>The largest finite double, \<^verbatim>\<open>sys.float_info.max\<close>.\<close>

definition DBL_MAX :: real where
  "DBL_MAX = 2 ^ 1024 - 2 ^ 971"

text \<open>
  Python's \<^verbatim>\<open>x ** i\<close> for a float \<^verbatim>\<open>x\<close> and an int \<^verbatim>\<open>i\<close>: the int is converted to a
  float (OverflowError when it is too large), \<^verbatim>\<open>0.0\<close> to a negative power raises
  ZeroDivisionError, and a result beyond the largest double raises OverflowError
  (\<^verbatim>\<open>1.05 ** 14548\<close> does). Underflow is silent.
\<close>

definition float_pow :: "real \<Rightarrow> int \<Rightarrow> py_error + real" where
  "float_pow x i =
     (if DBL_MAX < \<bar>real_of_int i\<bar> then Inl OverflowError
      else if x = 0 \<and> i < 0 then Inl ZeroDivisionError
      else if DBL_MAX < \<bar>x powi i\<bar> then Inl OverflowError
      else Inr (x powi i))"

text \<open>Python's \<^verbatim>\<open>int(x)\<close> truncates toward zero.\<close>

definition py_int :: "real \<Rightarrow> int" where
  "py_int x = (if 0 \<le> x then \<lfloor>x\<rfloor> else \<lceil>x\<rceil>)"

text \<open>\<^verbatim>\<open>torch.mean\<close> of a one-dimensional tensor (NaN on an empty one, which the reals lack).\<close>

definition mean :: "real list \<Rightarrow> real" where
  "mean xs = sum_list xs / real (length xs)"

text \<open>The maximum of a row, as \<^verbatim>\<open>.max(1)[0]\<close> computes it; torch raises on a row of size 0.\<close>

fun row_max :: "real list \<Rightarrow> py_error + real" where
  "row_max [] = Inl RuntimeError"
| "row_max (x # xs) = Inr (fold max xs x)"

text \<open>
  \<^verbatim>\<open>np.argmax\<close>: the index of the first occurrence of the maximum; ValueError on an empty
  array. \<open>argmax_from best k xs\<close> scans \<open>xs\<close>, whose first element has index \<open>k\<close>,
  with the best (index, value) so far.
\<close>

fun argmax_from :: "nat \<times> real \<Rightarrow> nat \<Rightarrow> real list \<Rightarrow> nat" where
  "argmax_from (bi, bv) k [] = bi"
| "argmax_from (bi, bv) k (x # xs) =
     (if bv < x then argmax_from (k, x) (Suc k) xs else argmax_from (bi, bv) (Suc k) xs)"

fun argmax :: "real list \<Rightarrow> py_error + int" where
  "argmax [] = Inl ValueError"
| "argmax (x # xs) = Inr (int (argmax_from (0, x) 1 xs))"

text \<open>\<^verbatim>\<open>.gather(1, actions)\<close> on one row: the entry at the action's index; torch raises when
  the index is out of range.\<close>

definition gather :: "real list \<Rightarrow> int \<Rightarrow> py_error + real" where
  "gather row a = (if 0 \<le> a \<and> a < int (length row) then Inr (row ! nat a) else Inl RuntimeError)"

text \<open>A map over the batch that stops at the first sample that raises.\<close>

fun map_result :: "('a \<Rightarrow> py_error + 'b) \<Rightarrow> 'a list \<Rightarrow> py_error + 'b list" where
  "map_result f [] = Inr []"
| "map_result f (x # xs) =
     (case f x of
        Inl e \<Rightarrow> Inl e
      | Inr y \<Rightarrow> (case map_result f xs of Inl e \<Rightarrow> Inl e | Inr ys \<Rightarrow> Inr (y # ys)))"

text \<open>The decimal digits of a natural number and of an integer, as \<^verbatim>\<open>str\<close> prints them.\<close>

fun digits :: "nat \<Rightarrow> string" where
  "digits n =
     (if n < 10 then [''0123456789'' ! n] else digits (n div 10) @ [''0123456789'' ! (n mod 10)])"

definition str_int :: "int \<Rightarrow> string" where
  "str_int n = (if n < 0 then CHR ''-'' # digits (nat (- n)) else digits (nat n))"

section \<open>Replay memory\<close>

record transition =
  tr_state :: "real list"
  tr_action :: int
  tr_reward :: real
  tr_next_state :: "real list"
  tr_done :: bool

text \<open>
  Modelled from the spec: the classes \<^verbatim>\<open>ReplayMemory\<close> and \<^verbatim>\<open>PrioritizedMemory\<close> of
  \<^verbatim>\<open>src/dqn/memory.py\<close> are not among the source files. The spec describes a bounded store:
  insertion evicts the oldest entry once at capacity, \<^verbatim>\<open>len\<close> is the occupied count, and
  \<^verbatim>\<open>update_priority\<close> overwrites the priorities at the given slots. The field
  \<open>priorities\<close> holds what \<^verbatim>\<open>update_priority\<close> wrote; the priority a new slot starts with
  is not described and not modelled. Sampling is random: each call of \<^verbatim>\<open>step\<close> is given the
  \<^verbatim>\<open>sample\<close> method with its random draws fixed, as a function.
\<close>

record memory =
  capacity :: nat
  buffer :: "transition list"
  priorities :: "int \<Rightarrow> real option"

definition mem_add :: "memory \<Rightarrow> transition \<Rightarrow> memory" where
  "mem_add m t =
     m\<lparr>buffer := drop (length (buffer m @ [t]) - capacity m) (buffer m @ [t])\<rparr>"

definition mem_len :: "memory \<Rightarrow> int" where
  "mem_len m = int (length (buffer m))"

definition update_priority :: "memory \<Rightarrow> int list \<Rightarrow> real list \<Rightarrow> memory" where
  "update_priority m index prios =
     m\<lparr>priorities := (priorities m)(index [\<mapsto>] prios)\<rparr>"

text \<open>
  What \<^verbatim>\<open>sample\<close> returns: five tensors from the uniform memory, seven from the prioritized
  one (the slot indices and the importance weights come last). One row per sample.
\<close>

datatype experiences =
    Batch5 "transition list"
  | Batch7 "transition list" "int list" "real list"

type_synonym sampler = "memory \<Rightarrow> real option \<Rightarrow> experiences"

section \<open>The agent\<close>

text \<open>
  The arguments of \<^verbatim>\<open>Agent.__init__\<close> that the agent keeps (\<^verbatim>\<open>seed\<close> and
  \<^verbatim>\<open>nb_hidden\<close> only reach the constructor of \<^verbatim>\<open>QNetwork\<close>), then the fields the
  constructor adds. \<open>'o\<close> is the state of the optimizer.
\<close>

record config =
  state_size :: int
  action_size :: int
  learning_rate :: real
  memory_size :: int
  prioritized_memory :: bool
  batch_size :: int
  gamma :: real
  tau :: real
  small_eps :: real
  update_every :: int
  epsilon_enabled :: bool
  epsilon_start :: real
  epsilon_end :: real
  epsilon_decay :: real

record 'o agent = config +
  epsilon :: real
  losses :: "real list"
  qnet_local :: "real list"
  qnet_target :: "real list"
  optimizer :: 'o
  memory :: memory
  t_step :: int

text \<open>
  The collaborators that are not in \<^verbatim>\<open>agent.py\<close>, taken as parameters:
  \<^verbatim>\<open>prep_state\<close> of the base class, the forward pass of \<^verbatim>\<open>QNetwork\<close> (from the
  parameters and a state to one value per action), one step of the optimizer, and Python's
  \<^verbatim>\<open>format(x, ".2f")\<close> of a float. The optimizer receives the loss as a function of the
  local network's parameters, the only ones it was built with, and returns its new state and
  the new parameters.
\<close>

record 'o env =
  prep_state :: "real list \<Rightarrow> real list"
  qnet :: "real list \<Rightarrow> real list \<Rightarrow> real list"
  optimizer_step :: "'o \<Rightarrow> (real list \<Rightarrow> py_error + real) \<Rightarrow> real list \<Rightarrow> 'o \<times> real list"
  format_2f :: "real \<Rightarrow> string"

text \<open>\<^verbatim>\<open>__init__\<close>, given the two networks and the optimizer it constructs.\<close>

definition init :: "config \<Rightarrow> real list \<Rightarrow> real list \<Rightarrow> 'o \<Rightarrow> 'o agent" where
  "init cfg local target opt =
     \<lparr>state_size = state_size cfg, action_size = action_size cfg,
      learning_rate = learning_rate cfg, memory_size = memory_size cfg,
      prioritized_memory = prioritized_memory cfg, batch_size = batch_size cfg,
      gamma = gamma cfg, tau = tau cfg, small_eps = small_eps cfg,
      update_every = update_every cfg, epsilon_enabled = epsilon_enabled cfg,
      epsilon_start = epsilon_start cfg, epsilon_end = epsilon_end cfg,
      epsilon_decay = epsilon_decay cfg,
      epsilon = (if epsilon_enabled cfg then epsilon_start cfg else 0),
      losses = [],
      qnet_local = local, qnet_target = target, optimizer = opt,
      memory = \<lparr>capacity = nat (memory_size cfg), buffer = [], priorities = Map.empty\<rparr>,
      t_step = 0\<rparr>"

subsection \<open>Exploration\<close>

definition decay_eps :: "'o agent \<Rightarrow> 'o agent" where
  "decay_eps ag = ag\<lparr>epsilon := max (epsilon_end ag) (epsilon_decay ag * epsilon ag)\<rparr>"

text \<open>
  \<^verbatim>\<open>act\<close>. \<open>u\<close> is what \<^verbatim>\<open>random.random()\<close> returns in this call and \<open>k\<close> what
  \<^verbatim>\<open>random.randrange(action_size)\<close> returns (it raises ValueError on an empty range).
  An exception leaves before \<^verbatim>\<open>decay_eps\<close>.
\<close>

definition act :: "'o env \<Rightarrow> 'o agent \<Rightarrow> real list \<Rightarrow> real \<Rightarrow> int \<Rightarrow> py_error + (int \<times> 'o agent)" where
  "act env ag state u k =
     (let state = prep_state env state;
          action_values = qnet env (qnet_local ag) state;
          action =
            (if epsilon_enabled ag \<and> u < epsilon ag
             then (if 0 < action_size ag then Inr k else Inl ValueError)
             else argmax action_values)
      in case action of
           Inl e \<Rightarrow> Inl e
         | Inr a \<Rightarrow> Inr (a, if epsilon_enabled ag then decay_eps ag else ag))"

subsection \<open>The beta schedule\<close>

definition get_beta :: "'o agent \<Rightarrow> int \<Rightarrow> real \<Rightarrow> real \<Rightarrow> real \<Rightarrow> py_error + real" where
  "get_beta ag i beta_start beta_end beta_growth =
     (if \<not> prioritized_memory ag then Inl TypeError
      else case float_pow beta_growth i of
             Inl e \<Rightarrow> Inl e
           | Inr p \<Rightarrow> Inr (min (beta_start * p) beta_end))"

subsection \<open>Learning\<close>

definition soft_update :: "'o agent \<Rightarrow> 'o agent" where
  "soft_update ag =
     ag\<lparr>qnet_target :=
          map2 (\<lambda>target_param local_param.
                  tau ag * local_param + (1 - tau ag) * target_param)
            (qnet_target ag) (qnet_local ag)
          @ drop (length (qnet_local ag)) (qnet_target ag)\<rparr>"

text \<open>
  \<^verbatim>\<open>F.mse_loss\<close> without reduction, and with the default reduction (the mean). The
  tensors of one batch have the same leading dimension; where two of them meet, the model
  pairs their entries by position.
\<close>

definition squared_errors :: "real list \<Rightarrow> real list \<Rightarrow> real list" where
  "squared_errors Q_expected Q_targets = map2 (\<lambda>e t. (e - t)\<^sup>2) Q_expected Q_targets"

definition mse_loss :: "real list \<Rightarrow> real list \<Rightarrow> real" where
  "mse_loss Q_expected Q_targets = mean (squared_errors Q_expected Q_targets)"

definition mse_loss_prioritized ::
  "'o agent \<Rightarrow> real list \<Rightarrow> real list \<Rightarrow> int list \<Rightarrow> real list \<Rightarrow> real \<times> 'o agent" where
  "mse_loss_prioritized ag Q_expected Q_targets index sampling_weights =
     (let losses = map2 (*) (squared_errors Q_expected Q_targets) sampling_weights;
          ag' = ag\<lparr>memory :=
                   update_priority (memory ag) index (map (\<lambda>l. l + small_eps ag) losses)\<rparr>
      in (mean losses, ag'))"

definition Q_targets_next :: "'o env \<Rightarrow> 'o agent \<Rightarrow> real list list \<Rightarrow> py_error + real list" where
  "Q_targets_next env ag next_states =
     map_result (\<lambda>s. row_max (qnet env (qnet_target ag) s)) next_states"

definition Q_targets :: "'o env \<Rightarrow> 'o agent \<Rightarrow> transition list \<Rightarrow> py_error + real list" where
  "Q_targets env ag rows =
     (case Q_targets_next env ag (map tr_next_state rows) of
        Inl e \<Rightarrow> Inl e
      | Inr nxt \<Rightarrow>
          Inr (map (\<lambda>(reward, q, done). reward + gamma ag * q * (1 - done))
                 (zip (map tr_reward rows) (zip nxt (map (of_bool \<circ> tr_done) rows)))))"

definition Q_expected :: "'o env \<Rightarrow> real list \<Rightarrow> transition list \<Rightarrow> py_error + real list" where
  "Q_expected env params rows =
     map_result (\<lambda>tr. gather (qnet env params (tr_state tr)) (tr_action tr)) rows"

text \<open>
  The loss as a function of the local network's parameters: what \<^verbatim>\<open>loss.backward()\<close>
  differentiates. The targets \<open>Qt\<close> are a constant of it.
\<close>

definition loss_of ::
  "'o env \<Rightarrow> 'o agent \<Rightarrow> transition list \<Rightarrow> int list \<Rightarrow> real list \<Rightarrow> real list \<Rightarrow> real list
     \<Rightarrow> py_error + real" where
  "loss_of env ag rows index sampling_weights Qt params =
     (case Q_expected env params rows of
        Inl e \<Rightarrow> Inl e
      | Inr Qe \<Rightarrow>
          Inr (if prioritized_memory ag
               then fst (mse_loss_prioritized ag Qe Qt index sampling_weights)
               else mse_loss Qe Qt))"

text \<open>
  \<^verbatim>\<open>learn\<close>. Unpacking the batch raises ValueError when the number of tensors does not
  fit the memory variant. The targets are computed once, from the target network, and are a
  constant of the loss that the optimizer differentiates (\<^verbatim>\<open>detach\<close>).
\<close>

definition learn :: "'o env \<Rightarrow> 'o agent \<Rightarrow> experiences \<Rightarrow> py_error + 'o agent" where
  "learn env ag exps =
     (case (case exps of
              Batch5 rows \<Rightarrow> if prioritized_memory ag then Inl ValueError else Inr (rows, [], [])
            | Batch7 rows index w \<Rightarrow>
                if prioritized_memory ag then Inr (rows, index, w) else Inl ValueError) of
        Inl e \<Rightarrow> Inl e
      | Inr (rows, index, sampling_weights) \<Rightarrow>
          (case Q_targets env ag rows of
             Inl e \<Rightarrow> Inl e
           | Inr Qt \<Rightarrow>
               (case Q_expected env (qnet_local ag) rows of
                  Inl e \<Rightarrow> Inl e
                | Inr Qe \<Rightarrow>
                    (let (loss, ag1) =
                           (if prioritized_memory ag
                            then mse_loss_prioritized ag Qe Qt index sampling_weights
                            else (mse_loss Qe Qt, ag));
                         ag2 = ag1\<lparr>losses := losses ag1 @ [loss]\<rparr>;
                         (opt', local') =
                           optimizer_step env (optimizer ag2)
                             (loss_of env ag rows index sampling_weights Qt) (qnet_local ag2);
                         ag3 = ag2\<lparr>optimizer := opt', qnet_local := local'\<rparr>
                     in Inr (soft_update ag3)))))"

subsection \<open>Registering a step\<close>

text \<open>
  \<^verbatim>\<open>step\<close>. \<open>preprocessed\<close> is the transition it stores, after \<^verbatim>\<open>prep_state\<close> on both
  states; \<open>sample\<close> is \<^verbatim>\<open>self.memory.sample\<close> with this call's random draws;
  the prioritized memory is given \<^verbatim>\<open>get_beta(episode)\<close>, with the default schedule
  \<^verbatim>\<open>beta_start = 0.4\<close>, \<^verbatim>\<open>beta_end = 1\<close>, \<^verbatim>\<open>beta_growth = 1.05\<close>. The remainder
  \<^verbatim>\<open>%\<close> raises ZeroDivisionError on \<^verbatim>\<open>update_every = 0\<close>, and has the sign of the
  divisor, as \<open>mod\<close> on \<^typ>\<open>int\<close> has.
\<close>

definition preprocessed ::
  "'o env \<Rightarrow> real list \<Rightarrow> int \<Rightarrow> real \<Rightarrow> real list \<Rightarrow> bool \<Rightarrow> transition" where
  "preprocessed env state action reward next_state done =
     (let state = prep_state env state;
          next_state = prep_state env next_state
      in \<lparr>tr_state = state, tr_action = action, tr_reward = reward,
          tr_next_state = next_state, tr_done = done\<rparr>)"

definition step ::
  "'o env \<Rightarrow> 'o agent \<Rightarrow> real list \<Rightarrow> int \<Rightarrow> real \<Rightarrow> real list \<Rightarrow> bool \<Rightarrow> int \<Rightarrow> sampler
     \<Rightarrow> py_error + 'o agent" where
  "step env ag state action reward next_state done episode sample =
     (let ag1 = ag\<lparr>memory := mem_add (memory ag)
                   (preprocessed env state action reward next_state done)\<rparr>
      in if update_every ag1 = 0 then Inl ZeroDivisionError
         else
           (let ag2 = ag1\<lparr>t_step := (t_step ag1 + 1) mod update_every ag1\<rparr>
            in if t_step ag2 = 0
               then (if mem_len (memory ag2) > batch_size ag2
                     then (if prioritized_memory ag2
                           then (case get_beta ag2 episode (4 / 10) 1 (105 / 100) of
                                   Inl e \<Rightarrow> Inl e
                                 | Inr beta \<Rightarrow> learn env ag2 (sample (memory ag2) (Some beta)))
                           else learn env ag2 (sample (memory ag2) None))
                     else Inr ag2)
               else Inr ag2))"

subsection \<open>Persistence and diagnostics\<close>

text \<open>
  A file system maps a path to the state dict stored there. \<^verbatim>\<open>torch.load\<close> raises on a
  missing file and \<^verbatim>\<open>load_state_dict\<close> on a state dict of another shape; failures of
  writing are not modelled.
\<close>

type_synonym files = "string \<Rightarrow> real list option"

definition save_model :: "'o agent \<Rightarrow> files \<Rightarrow> string \<Rightarrow> files" where
  "save_model ag fs path = fs(path \<mapsto> qnet_local ag)"

definition load_model :: "'o agent \<Rightarrow> files \<Rightarrow> string \<Rightarrow> py_error + 'o agent" where
  "load_model ag fs path =
     (case fs path of
        None \<Rightarrow> Inl FileNotFoundError
      | Some state_dict \<Rightarrow>
          if length state_dict = length (qnet_local ag)
          then Inr (ag\<lparr>qnet_local := state_dict\<rparr>)
          else Inl RuntimeError)"

text \<open>
  \<^verbatim>\<open>logs\<close>. \<open>avg_loss\<close> is an int, or \<^verbatim>\<open>float("inf")\<close> (here \<open>None\<close>) when no loss
  was recorded; an int formatted with \<^verbatim>\<open>.2f\<close> is its decimal digits and \<^verbatim>\<open>.00\<close>.
\<close>

definition logs :: "'o env \<Rightarrow> 'o agent \<Rightarrow> string" where
  "logs env ag =
     (let avg_loss =
            (if 0 < length (losses ag)
             then Some (py_int (mean (drop (length (losses ag) - 100) (losses ag))))
             else None)
      in ''Epsilon: '' @ format_2f env (epsilon ag) @ [CHR 0x09] @ ''Avg. MSE Loss: ''
         @ (case avg_loss of Some n \<Rightarrow> str_int n @ ''.00'' | None \<Rightarrow> ''inf''))"

subsection \<open>Sequences of calls\<close>

datatype call =
    Act "real list" real int
  | Step "real list" int real "real list" bool int sampler
  | Learn experiences
  | Soft_update
  | Load_model files string

fun do_call :: "'o env \<Rightarrow> 'o agent \<Rightarrow> call \<Rightarrow> py_error + 'o agent" where
  "do_call env ag (Act state u k) =
     (case act env ag state u k of Inl e \<Rightarrow> Inl e | Inr (a, ag') \<Rightarrow> Inr ag')"
| "do_call env ag (Step state action reward next_state done episode sample) =
     step env ag state action reward next_state done episode sample"
| "do_call env ag (Learn exps) = learn env ag exps"
| "do_call env ag Soft_update = Inr (soft_update ag)"
| "do_call env ag (Load_model fs path) = load_model ag fs path"

text \<open>A run of the driver: one call after the other, until one raises.\<close>

fun run :: "'o env \<Rightarrow> 'o agent \<Rightarrow> call list \<Rightarrow> py_error + 'o agent" where
  "run env ag [] = Inr ag"
| "run env ag (c # cs) =
     (case do_call env ag c of Inl e \<Rightarrow> Inl e | Inr ag' \<Rightarrow> run env ag' cs)"

text \<open>The calls of \<^verbatim>\<open>step\<close> among the calls.\<close>

fun is_step :: "call \<Rightarrow> bool" where
  "is_step (Step state action reward next_state done episode sample) = True"
| "is_step c = False"

text \<open>The rows, the slot indices and the importance weights of a batch, as \<^verbatim>\<open>learn\<close>
  unpacks them.\<close>

fun rows_of :: "experiences \<Rightarrow> transition list" where
  "rows_of (Batch5 rows) = rows"
| "rows_of (Batch7 rows index sampling_weights) = rows"

fun index_of :: "experiences \<Rightarrow> int list" where
  "index_of (Batch5 rows) = []"
| "index_of (Batch7 rows index sampling_weights) = index"

fun weights_of :: "experiences \<Rightarrow> real list" where
  "weights_of (Batch5 rows) = []"
| "weights_of (Batch7 rows index sampling_weights) = sampling_weights"

section \<open>Float range, defaults and a small instance\<close>

text \<open>The power \<^verbatim>\<open>x ** i\<close> stays within the doubles.\<close>

definition pow_in_range :: "real \<Rightarrow> int \<Rightarrow> bool" where
  "pow_in_range x i \<longleftrightarrow> \<bar>real_of_int i\<bar> \<le> DBL_MAX \<and> \<bar>x powi i\<bar> \<le> DBL_MAX"

text \<open>The default values of the constructor's arguments.\<close>

definition default_config :: "int \<Rightarrow> int \<Rightarrow> config" where
  "default_config n_states n_actions =
     \<lparr>state_size = n_states, action_size = n_actions,
      learning_rate = 5 / 10000, memory_size = 100000,
      prioritized_memory = False, batch_size = 64,
      gamma = 99 / 100, tau = 1 / 1000, small_eps = 1 / 100000,
      update_every = 4, epsilon_enabled = True,
      epsilon_start = 1, epsilon_end = 1 / 100, epsilon_decay = 995 / 1000\<rparr>"

text \<open>
  An instance of the collaborators to evaluate the agent on: preprocessing halves every
  entry of a state, the network has one parameter per action and adds the sum of the state to
  each, the optimizer counts its steps and halves the parameters, and the formatting of
  floats is left as a placeholder.
\<close>

definition toy_env :: "nat env" where
  "toy_env =
     \<lparr>prep_state = map (\<lambda>x. x / 2),
      qnet = (\<lambda>params s. map (\<lambda>w. w + sum_list s) params),
      optimizer_step = (\<lambda>n loss_of params. (Suc n, map (\<lambda>w. w / 2) params)),
      format_2f = (\<lambda>x. ''%.2f'')\<rparr>"

definition toy_agent :: "config \<Rightarrow> nat agent" where
  "toy_agent cfg = init cfg [1, 3] [2, 0] 0"

text \<open>
  The agent with 100 transitions in its memory, and a call of \<^verbatim>\<open>step\<close> whose sampler
  draws one of them.
\<close>

definition seeded_agent :: "nat agent" where
  "seeded_agent =
     (toy_agent (default_config 2 2))
       \<lparr>memory := \<lparr>capacity = 100000,
                   buffer = replicate 100
                     \<lparr>tr_state = [0], tr_action = 1, tr_reward = 5, tr_next_state = [1],
                      tr_done = True\<rparr>,
                   priorities = Map.empty\<rparr>\<rparr>"

definition toy_step :: call where
  "toy_step = Step [0] 1 5 [1] True 0
     (\<lambda>m beta. Batch5 [\<lparr>tr_state = [0], tr_action = 1, tr_reward = 5, tr_next_state = [1],
                          tr_done = True\<rparr>])"

text \<open>A terminal transition with reward 5.\<close>

definition terminal_row :: transition where
  "terminal_row =
     \<lparr>tr_state = [0], tr_action = 1, tr_reward = 5, tr_next_state = [1], tr_done = True\<rparr>"

text \<open>
  The agent with prioritized memory and 100 transitions in it, and a call of \<^verbatim>\<open>step\<close>
  in a given episode.
\<close>

definition prioritized_seeded_agent :: "nat agent" where
  "prioritized_seeded_agent =
     (toy_agent ((default_config 2 2)\<lparr>prioritized_memory := True\<rparr>))
       \<lparr>memory := \<lparr>capacity = 100000, buffer = replicate 100 terminal_row,
                   priorities = Map.empty\<rparr>\<rparr>"

definition step_in_episode :: "int \<Rightarrow> call" where
  "step_in_episode episode =
     Step [0] 1 5 [1] True episode (\<lambda>m beta. Batch7 [terminal_row] [0] [1])"

section \<open>What each operation changes\<close>

lemma update_priority_buffer: "buffer (update_priority m index prios) = buffer m"
  and update_priority_capacity: "capacity (update_priority m index prios) = capacity m"
  by (simp_all add: update_priority_def)

lemma soft_update_frame:
  "soft_update ag = ag\<lparr>qnet_target := qnet_target (soft_update ag)\<rparr>"
  by (simp add: soft_update_def)

lemma learn_fields:
  assumes "learn env ag exps = Inr ag'"
  shows "epsilon ag' = epsilon ag \<and> epsilon_enabled ag' = epsilon_enabled ag
       \<and> epsilon_end ag' = epsilon_end ag \<and> epsilon_decay ag' = epsilon_decay ag
       \<and> update_every ag' = update_every ag \<and> batch_size ag' = batch_size ag
       \<and> prioritized_memory ag' = prioritized_memory ag
       \<and> t_step ag' = t_step ag
       \<and> buffer (memory ag') = buffer (memory ag)
       \<and> capacity (memory ag') = capacity (memory ag)
       \<and> length (losses ag') = Suc (length (losses ag))
       \<and> qnet_target ag' =
             map2 (\<lambda>target_param local_param.
                     tau ag * local_param + (1 - tau ag) * target_param)
               (qnet_target ag) (qnet_local ag')
             @ drop (length (qnet_local ag')) (qnet_target ag)"
  using assms
  unfolding learn_def mse_loss_prioritized_def soft_update_def Let_def
  by (auto simp: update_priority_def split: sum.splits experiences.splits prod.splits if_splits)

lemma step_raises:
  "update_every ag = 0 \<Longrightarrow>
   step env ag state action reward next_state done episode sample = Inl ZeroDivisionError"
  by (simp add: step_def Let_def)

lemma step_no_learn:
  assumes "update_every ag \<noteq> 0"
    and "\<not> ((t_step ag + 1) mod update_every ag = 0
            \<and> batch_size ag
                < mem_len (mem_add (memory ag) (preprocessed env state action reward next_state done)))"
  shows "step env ag state action reward next_state done episode sample =
           Inr (ag\<lparr>memory := mem_add (memory ag) (preprocessed env state action reward next_state done),
                  t_step := (t_step ag + 1) mod update_every ag\<rparr>)"
  using assms unfolding step_def Let_def by (simp split: if_splits)

lemma step_learn:
  assumes "update_every ag \<noteq> 0"
    and "(t_step ag + 1) mod update_every ag = 0"
    and "batch_size ag
           < mem_len (mem_add (memory ag) (preprocessed env state action reward next_state done))"
    and "ag2 = ag\<lparr>memory := mem_add (memory ag) (preprocessed env state action reward next_state done),
                  t_step := 0\<rparr>"
  shows "step env ag state action reward next_state done episode sample =
           (if prioritized_memory ag
            then (case get_beta ag2 episode (4 / 10) 1 (105 / 100) of
                    Inl e \<Rightarrow> Inl e
                  | Inr beta \<Rightarrow> learn env ag2 (sample (memory ag2) (Some beta)))
            else learn env ag2 (sample (memory ag2) None))"
  using assms unfolding step_def Let_def by (simp cong: sum.case_cong)

lemma step_fields:
  assumes "step env ag state action reward next_state done episode sample = Inr ag'"
  shows "epsilon ag' = epsilon ag \<and> epsilon_enabled ag' = epsilon_enabled ag
       \<and> epsilon_end ag' = epsilon_end ag \<and> epsilon_decay ag' = epsilon_decay ag
       \<and> update_every ag' = update_every ag \<and> batch_size ag' = batch_size ag
       \<and> prioritized_memory ag' = prioritized_memory ag
       \<and> update_every ag \<noteq> 0
       \<and> t_step ag' = (t_step ag + 1) mod update_every ag
       \<and> buffer (memory ag')
           = buffer (mem_add (memory ag) (preprocessed env state action reward next_state done))
       \<and> capacity (memory ag') = capacity (memory ag)
       \<and> length (losses ag') = length (losses ag) +
            (if (t_step ag + 1) mod update_every ag = 0
                \<and> batch_size ag
                    < mem_len (mem_add (memory ag) (preprocessed env state action reward next_state done))
             then 1 else 0)"
proof -
  let ?m = "mem_add (memory ag) (preprocessed env state action reward next_state done)"
  have ne: "update_every ag \<noteq> 0"
    using assms step_raises[of ag env] by auto
  have cap: "capacity ?m = capacity (memory ag)"
    by (simp add: mem_add_def)
  show ?thesis
  proof (cases "(t_step ag + 1) mod update_every ag = 0 \<and> batch_size ag < mem_len ?m")
    case False
    then show ?thesis
      using assms ne cap step_no_learn[OF ne False, of episode sample] by auto
  next
    case True
    define ag2 where "ag2 = ag\<lparr>memory := ?m, t_step := 0\<rparr>"
    have "\<exists>exps. learn env ag2 exps = Inr ag'"
      using assms step_learn[OF ne _ _ ag2_def, of episode sample] True
      by (auto split: if_splits sum.splits)
    then obtain exps where "learn env ag2 exps = Inr ag'" ..
    from learn_fields[OF this] show ?thesis
      using True ne cap by (simp add: ag2_def)
  qed
qed

lemma act_result:
  assumes "act env ag state u k = Inr (a, ag')"
  shows "ag' = (if epsilon_enabled ag then decay_eps ag else ag)"
    and "(if epsilon_enabled ag \<and> u < epsilon ag then 0 < action_size ag \<and> a = k
         else argmax (qnet env (qnet_local ag) (prep_state env state)) = Inr a)"
  using assms by (auto simp: act_def Let_def split: sum.splits if_splits)

lemma act_random:
  "epsilon_enabled ag \<Longrightarrow> u < epsilon ag \<Longrightarrow> 0 < action_size ag \<Longrightarrow>
   act env ag state u k = Inr (k, decay_eps ag)"
  by (simp add: act_def)

lemma act_greedy:
  "\<not> (epsilon_enabled ag \<and> u < epsilon ag) \<Longrightarrow>
   argmax (qnet env (qnet_local ag) (prep_state env state)) = Inr a \<Longrightarrow>
   act env ag state u k = Inr (a, if epsilon_enabled ag then decay_eps ag else ag)"
  by (auto simp: act_def)

lemma argmax_returns: "xs \<noteq> [] \<Longrightarrow> \<exists>a. argmax xs = Inr a"
  by (cases xs) simp_all

lemma decay_eps_fields:
  "epsilon (decay_eps ag) = max (epsilon_end ag) (epsilon_decay ag * epsilon ag)"
  "epsilon_enabled (decay_eps ag) = epsilon_enabled ag"
  "epsilon_end (decay_eps ag) = epsilon_end ag"
  "epsilon_decay (decay_eps ag) = epsilon_decay ag"
  by (simp_all add: decay_eps_def)

lemma load_model_fields:
  assumes "load_model ag fs path = Inr ag'"
  shows "epsilon ag' = epsilon ag \<and> epsilon_enabled ag' = epsilon_enabled ag
       \<and> epsilon_end ag' = epsilon_end ag \<and> epsilon_decay ag' = epsilon_decay ag
       \<and> qnet_target ag' = qnet_target ag \<and> memory ag' = memory ag
       \<and> fs path = Some (qnet_local ag')"
  using assms by (auto simp: load_model_def split: option.splits if_splits)

lemma do_call_epsilon:
  assumes "do_call env ag c = Inr ag'"
  shows "epsilon_enabled ag' = epsilon_enabled ag \<and> epsilon_end ag' = epsilon_end ag
       \<and> epsilon_decay ag' = epsilon_decay ag
       \<and> (epsilon ag' = epsilon ag
          \<or> epsilon_enabled ag
            \<and> epsilon ag' = max (epsilon_end ag) (epsilon_decay ag * epsilon ag))"
proof (cases c)
  case (Act state u k)
  then obtain a where "act env ag state u k = Inr (a, ag')"
    using assms by (auto split: sum.splits)
  from act_result(1)[OF this] show ?thesis
    by (simp add: decay_eps_fields)
next
  case (Step state action reward next_state d episode sample)
  then show ?thesis
    using assms step_fields[of env ag state action reward next_state d episode sample ag'] by simp
next
  case (Learn exps)
  then show ?thesis
    using assms learn_fields[of env ag exps ag'] by simp
next
  case Soft_update
  then show ?thesis
    using assms by (auto simp: soft_update_def)
next
  case (Load_model fs path)
  then have "load_model ag fs path = Inr ag'"
    using assms by simp
  from load_model_fields[OF this] show ?thesis
    by simp
qed

lemma run_append:
  "run env ag (cs @ cs') = (case run env ag cs of Inl e \<Rightarrow> Inl e | Inr ag1 \<Rightarrow> run env ag1 cs')"
  by (induction cs arbitrary: ag) (auto split: sum.splits)

lemma decay_step_le:
  fixes e d lo :: real
  assumes "0 \<le> lo" "lo \<le> e" "d \<le> 1"
  shows "lo \<le> max lo (d * e) \<and> max lo (d * e) \<le> e"
proof -
  have "0 \<le> e" using assms by simp
  then have "d * e \<le> 1 * e"
    using assms(3) by (intro mult_right_mono) simp_all
  then show ?thesis using assms by simp
qed

lemma run_epsilon:
  assumes "run env ag cs = Inr ag'"
  shows "epsilon_enabled ag' = epsilon_enabled ag \<and> epsilon_end ag' = epsilon_end ag
       \<and> epsilon_decay ag' = epsilon_decay ag
       \<and> (\<not> epsilon_enabled ag \<longrightarrow> epsilon ag' = epsilon ag)
       \<and> (0 \<le> epsilon_end ag \<and> epsilon_end ag \<le> epsilon ag \<and> epsilon_decay ag \<le> 1 \<longrightarrow>
            epsilon_end ag \<le> epsilon ag' \<and> epsilon ag' \<le> epsilon ag)"
  using assms
proof (induction cs arbitrary: ag)
  case Nil
  then show ?case by simp
next
  case (Cons c cs)
  then obtain ag1 where c: "do_call env ag c = Inr ag1" and r: "run env ag1 cs = Inr ag'"
    by (auto split: sum.splits)
  note d = do_call_epsilon[OF c]
  note ih = Cons.IH[OF r]
  show ?case
  proof (intro conjI impI)
    show "epsilon_enabled ag' = epsilon_enabled ag" "epsilon_end ag' = epsilon_end ag"
      "epsilon_decay ag' = epsilon_decay ag"
      using d ih by simp_all
    show "epsilon ag' = epsilon ag" if "\<not> epsilon_enabled ag"
      using that d ih by simp
  next
    assume h: "0 \<le> epsilon_end ag \<and> epsilon_end ag \<le> epsilon ag \<and> epsilon_decay ag \<le> 1"
    then have "epsilon_end ag \<le> epsilon ag1 \<and> epsilon ag1 \<le> epsilon ag"
      using d decay_step_le[of "epsilon_end ag" "epsilon ag" "epsilon_decay ag"] by auto
    with h d ih show "epsilon_end ag \<le> epsilon ag'" "epsilon ag' \<le> epsilon ag"
      by auto
  qed
qed


section \<open>The learning cadence\<close>

lemma mem_add_length:
  "length (buffer (mem_add m t)) = min (Suc (length (buffer m))) (capacity m)"
  by (simp add: mem_add_def)

lemma step_call_fields:
  assumes "is_step c" and "do_call env ag c = Inr ag'"
  shows "update_every ag' = update_every ag \<and> batch_size ag' = batch_size ag
       \<and> update_every ag \<noteq> 0
       \<and> t_step ag' = (t_step ag + 1) mod update_every ag
       \<and> capacity (memory ag') = capacity (memory ag)
       \<and> length (buffer (memory ag'))
           = min (Suc (length (buffer (memory ag)))) (capacity (memory ag))
       \<and> length (losses ag') = length (losses ag) +
            (if (t_step ag + 1) mod update_every ag = 0
                \<and> batch_size ag
                    < int (min (Suc (length (buffer (memory ag)))) (capacity (memory ag)))
             then 1 else 0)"
proof (cases c)
  case (Step state action reward next_state d episode sample)
  then have "step env ag state action reward next_state d episode sample = Inr ag'"
    using assms(2) by simp
  from step_fields[OF this] show ?thesis
    by (simp add: mem_add_length mem_len_def)
qed (use assms(1) in simp_all)

lemma four_steps:
  assumes c: "is_step c1" "is_step c2" "is_step c3" "is_step c4"
    and cfg: "update_every ag = 4" "batch_size ag = 64" "t_step ag = 0"
    and m: "mem_len (memory ag) = 100" "length (buffer (memory ag)) \<le> capacity (memory ag)"
    and r: "do_call env ag c1 = Inr ag1" "do_call env ag1 c2 = Inr ag2"
           "do_call env ag2 c3 = Inr ag3" "do_call env ag3 c4 = Inr ag4"
  shows "length (losses ag1) = length (losses ag) \<and> length (losses ag2) = length (losses ag)
       \<and> length (losses ag3) = length (losses ag)
       \<and> length (losses ag4) = length (losses ag) + 1"
proof -
  have len: "length (buffer (memory ag)) = 100"
    using m(1) by (simp add: mem_len_def)
  note f1 = step_call_fields[OF c(1) r(1)]
  have s1: "update_every ag1 = 4" "batch_size ag1 = 64" "t_step ag1 = 1"
    "100 \<le> length (buffer (memory ag1))" "length (buffer (memory ag1)) \<le> capacity (memory ag1)"
    "length (losses ag1) = length (losses ag)"
    using f1 cfg len m(2) by simp_all
  note f2 = step_call_fields[OF c(2) r(2)]
  have s2: "update_every ag2 = 4" "batch_size ag2 = 64" "t_step ag2 = 2"
    "100 \<le> length (buffer (memory ag2))" "length (buffer (memory ag2)) \<le> capacity (memory ag2)"
    "length (losses ag2) = length (losses ag)"
    using f2 s1 by simp_all
  note f3 = step_call_fields[OF c(3) r(3)]
  have s3: "update_every ag3 = 4" "batch_size ag3 = 64" "t_step ag3 = 3"
    "100 \<le> length (buffer (memory ag3))" "length (buffer (memory ag3)) \<le> capacity (memory ag3)"
    "length (losses ag3) = length (losses ag)"
    using f3 s2 by simp_all
  note f4 = step_call_fields[OF c(4) r(4)]
  have s4: "length (losses ag4) = length (losses ag) + 1"
    using f4 s3 by simp
  show ?thesis
    using s1 s2 s3 s4 by simp
qed

text \<open>
  The cadence of \<^verbatim>\<open>step\<close> on the calls that return. Such a call has added the
  transition, with \<^verbatim>\<open>prep_state\<close> applied to both states, to the memory and advanced
  the counter modulo \<open>update_every\<close>; \<^verbatim>\<open>learn\<close> ran (one more recorded loss)
  exactly when the counter wrapped to 0 and the memory then held more than \<open>batch_size\<close>
  transitions. Without these two conditions \<^verbatim>\<open>step\<close> changes the memory and the
  counter only; with them its result is that of \<^verbatim>\<open>get_beta\<close> (prioritized memory)
  and \<^verbatim>\<open>learn\<close> on the sampled batch. With \<open>update_every = 4\<close>,
  \<open>batch_size = 64\<close>, the counter at 0 and 100 stored transitions, four \<^verbatim>\<open>step\<close>
  calls that return record one loss, in the fourth.
\<close>

theorem step_learning_cadence:
  "preprocessed env state action reward next_state done
     = \<lparr>tr_state = prep_state env state, tr_action = action, tr_reward = reward,
        tr_next_state = prep_state env next_state, tr_done = done\<rparr>
   \<and> (\<forall>ag'. step env ag state action reward next_state done episode sample = Inr ag' \<longrightarrow>
       buffer (memory ag')
         = buffer (mem_add (memory ag) (preprocessed env state action reward next_state done))
       \<and> t_step ag' = (t_step ag + 1) mod update_every ag
       \<and> length (losses ag') = length (losses ag) +
            (if (t_step ag + 1) mod update_every ag = 0
                \<and> batch_size ag
                    < mem_len (mem_add (memory ag) (preprocessed env state action reward next_state done))
             then 1 else 0))
   \<and> (update_every ag \<noteq> 0
        \<and> \<not> ((t_step ag + 1) mod update_every ag = 0
              \<and> batch_size ag
                  < mem_len (mem_add (memory ag) (preprocessed env state action reward next_state done))) \<longrightarrow>
        step env ag state action reward next_state done episode sample =
          Inr (ag\<lparr>memory := mem_add (memory ag) (preprocessed env state action reward next_state done),
                 t_step := (t_step ag + 1) mod update_every ag\<rparr>))
   \<and> (update_every ag \<noteq> 0
        \<and> (t_step ag + 1) mod update_every ag = 0
        \<and> batch_size ag
            < mem_len (mem_add (memory ag) (preprocessed env state action reward next_state done)) \<longrightarrow>
        (let ag2 = ag\<lparr>memory := mem_add (memory ag) (preprocessed env state action reward next_state done),
                       t_step := 0\<rparr>
         in step env ag state action reward next_state done episode sample =
              (if prioritized_memory ag
               then (case get_beta ag2 episode (4 / 10) 1 (105 / 100) of
                       Inl e \<Rightarrow> Inl e
                     | Inr beta \<Rightarrow> learn env ag2 (sample (memory ag2) (Some beta)))
               else learn env ag2 (sample (memory ag2) None))))
   \<and> (\<forall>c1 c2 c3 c4 ag1 ag2 ag3 ag4.
        is_step c1 \<and> is_step c2 \<and> is_step c3 \<and> is_step c4
        \<and> update_every ag = 4 \<and> batch_size ag = 64 \<and> t_step ag = 0
        \<and> mem_len (memory ag) = 100 \<and> length (buffer (memory ag)) \<le> capacity (memory ag)
        \<and> do_call env ag c1 = Inr ag1 \<and> do_call env ag1 c2 = Inr ag2
        \<and> do_call env ag2 c3 = Inr ag3 \<and> do_call env ag3 c4 = Inr ag4 \<longrightarrow>
        length (losses ag1) = length (losses ag) \<and> length (losses ag2) = length (losses ag)
        \<and> length (losses ag3) = length (losses ag)
        \<and> length (losses ag4) = length (losses ag) + 1)"
proof (intro conjI allI impI)
  show "preprocessed env state action reward next_state done
     = \<lparr>tr_state = prep_state env state, tr_action = action, tr_reward = reward,
        tr_next_state = prep_state env next_state, tr_done = done\<rparr>"
    by (simp add: preprocessed_def)
next
  fix ag'
  assume "step env ag state action reward next_state done episode sample = Inr ag'"
  note f = step_fields[OF this]
  from f show "buffer (memory ag')
         = buffer (mem_add (memory ag) (preprocessed env state action reward next_state done))"
    by simp
  from f show "t_step ag' = (t_step ag + 1) mod update_every ag"
    by simp
  from f show "length (losses ag') = length (losses ag) +
            (if (t_step ag + 1) mod update_every ag = 0
                \<and> batch_size ag
                    < mem_len (mem_add (memory ag) (preprocessed env state action reward next_state done))
             then 1 else 0)"
    by simp
next
  assume "update_every ag \<noteq> 0
        \<and> \<not> ((t_step ag + 1) mod update_every ag = 0
              \<and> batch_size ag
                  < mem_len (mem_add (memory ag) (preprocessed env state action reward next_state done)))"
  then show "step env ag state action reward next_state done episode sample =
          Inr (ag\<lparr>memory := mem_add (memory ag) (preprocessed env state action reward next_state done),
                 t_step := (t_step ag + 1) mod update_every ag\<rparr>)"
    using step_no_learn by blast
next
  assume h: "update_every ag \<noteq> 0
        \<and> (t_step ag + 1) mod update_every ag = 0
        \<and> batch_size ag
            < mem_len (mem_add (memory ag) (preprocessed env state action reward next_state done))"
  show "let ag2 = ag\<lparr>memory := mem_add (memory ag) (preprocessed env state action reward next_state done),
                       t_step := 0\<rparr>
         in step env ag state action reward next_state done episode sample =
              (if prioritized_memory ag
               then (case get_beta ag2 episode (4 / 10) 1 (105 / 100) of
                       Inl e \<Rightarrow> Inl e
                     | Inr beta \<Rightarrow> learn env ag2 (sample (memory ag2) (Some beta)))
               else learn env ag2 (sample (memory ag2) None))"
    unfolding Let_def using h by (intro step_learn) simp_all
next
  fix c1 c2 c3 c4 ag1 ag2 ag3 ag4
  assume h: "is_step c1 \<and> is_step c2 \<and> is_step c3 \<and> is_step c4
        \<and> update_every ag = 4 \<and> batch_size ag = 64 \<and> t_step ag = 0
        \<and> mem_len (memory ag) = 100 \<and> length (buffer (memory ag)) \<le> capacity (memory ag)
        \<and> do_call env ag c1 = Inr ag1 \<and> do_call env ag1 c2 = Inr ag2
        \<and> do_call env ag2 c3 = Inr ag3 \<and> do_call env ag3 c4 = Inr ag4"
  have "length (losses ag1) = length (losses ag) \<and> length (losses ag2) = length (losses ag)
        \<and> length (losses ag3) = length (losses ag)
        \<and> length (losses ag4) = length (losses ag) + 1"
    using h
    by (intro four_steps[where ?c1.0 = c1 and ?c2.0 = c2 and ?c3.0 = c3 and ?c4.0 = c4
          and env = env]) simp_all
  then show "length (losses ag1) = length (losses ag)" "length (losses ag2) = length (losses ag)"
    "length (losses ag3) = length (losses ag)" "length (losses ag4) = length (losses ag) + 1"
    by simp_all
qed


lemma seeded_facts:
  "update_every seeded_agent = 4" "batch_size seeded_agent = 64" "t_step seeded_agent = 0"
  "mem_len (memory seeded_agent) = 100"
  "length (buffer (memory seeded_agent)) \<le> capacity (memory seeded_agent)"
  "length (losses seeded_agent) = 0"
  by (simp_all add: seeded_agent_def toy_agent_def init_def default_config_def mem_len_def)

lemma toy_step_returns:
  assumes "update_every ag = 4" "batch_size ag = 64" "\<not> prioritized_memory ag"
    "qnet_local ag = [1, 3]" "qnet_target ag = [2, 0]"
  shows "\<exists>ag'. do_call toy_env ag toy_step = Inr ag'"
  using assms
  by (simp add: toy_step_def step_def preprocessed_def toy_env_def Let_def learn_def Q_targets_def
      Q_targets_next_def Q_expected_def gather_def split: prod.splits)

lemma toy_step_keeps:
  assumes "do_call toy_env ag toy_step = Inr ag'"
    and "(t_step ag + 1) mod update_every ag \<noteq> 0"
  shows "prioritized_memory ag' = prioritized_memory ag \<and> qnet_local ag' = qnet_local ag
       \<and> qnet_target ag' = qnet_target ag"
proof -
  have ne: "update_every ag \<noteq> 0"
    using assms(1) step_raises[of ag toy_env] by (auto simp: toy_step_def)
  show ?thesis
    using assms ne unfolding toy_step_def do_call.simps
    by (subst (asm) step_no_learn) auto
qed

theorem step_learning_cadence_witness:
  "\<exists>ag1 ag2 ag3 ag4.
     do_call toy_env seeded_agent toy_step = Inr ag1 \<and> do_call toy_env ag1 toy_step = Inr ag2
     \<and> do_call toy_env ag2 toy_step = Inr ag3 \<and> do_call toy_env ag3 toy_step = Inr ag4
     \<and> length (losses ag1) = 0 \<and> length (losses ag2) = 0 \<and> length (losses ag3) = 0
     \<and> length (losses ag4) = 1"
proof -
  have n0: "\<not> prioritized_memory seeded_agent" "qnet_local seeded_agent = [1, 3]"
    "qnet_target seeded_agent = [2, 0]"
    by (simp_all add: seeded_agent_def toy_agent_def init_def default_config_def)
  have st: "is_step toy_step"
    by (simp add: toy_step_def)
  obtain ag1 where r1: "do_call toy_env seeded_agent toy_step = Inr ag1"
    using toy_step_returns[of seeded_agent] seeded_facts n0 by auto
  note f1 = step_call_fields[OF st r1]
  note k1 = toy_step_keeps[OF r1]
  have n1: "update_every ag1 = 4" "batch_size ag1 = 64" "t_step ag1 = 1"
    "\<not> prioritized_memory ag1" "qnet_local ag1 = [1, 3]" "qnet_target ag1 = [2, 0]"
    using f1 k1 seeded_facts n0 by simp_all
  obtain ag2 where r2: "do_call toy_env ag1 toy_step = Inr ag2"
    using toy_step_returns[of ag1] n1 by auto
  note f2 = step_call_fields[OF st r2]
  note k2 = toy_step_keeps[OF r2]
  have n2: "update_every ag2 = 4" "batch_size ag2 = 64" "t_step ag2 = 2"
    "\<not> prioritized_memory ag2" "qnet_local ag2 = [1, 3]" "qnet_target ag2 = [2, 0]"
    using f2 k2 n1 by simp_all
  obtain ag3 where r3: "do_call toy_env ag2 toy_step = Inr ag3"
    using toy_step_returns[of ag2] n2 by auto
  note f3 = step_call_fields[OF st r3]
  note k3 = toy_step_keeps[OF r3]
  have n3: "update_every ag3 = 4" "batch_size ag3 = 64" "t_step ag3 = 3"
    "\<not> prioritized_memory ag3" "qnet_local ag3 = [1, 3]" "qnet_target ag3 = [2, 0]"
    using f3 k3 n2 by simp_all
  obtain ag4 where r4: "do_call toy_env ag3 toy_step = Inr ag4"
    using toy_step_returns[of ag3] n3 by auto
  have "length (losses ag1) = length (losses seeded_agent)
      \<and> length (losses ag2) = length (losses seeded_agent)
      \<and> length (losses ag3) = length (losses seeded_agent)
      \<and> length (losses ag4) = length (losses seeded_agent) + 1"
    using step_learning_cadence[where env = toy_env and ag = seeded_agent] st seeded_facts r1 r2 r3 r4 by blast
  then show ?thesis
    using r1 r2 r3 r4 seeded_facts(6) by auto
qed

section \<open>The beta schedule\<close>

lemma DBL_MAX_ge: "2 ^ 1023 \<le> DBL_MAX"
  unfolding DBL_MAX_def by simp

lemma DBL_MAX_lt: "DBL_MAX < 2 ^ 1024"
  unfolding DBL_MAX_def by simp

lemma float_pow_in_range:
  "pow_in_range x i \<Longrightarrow> 0 \<le> i \<Longrightarrow> float_pow x i = Inr (x ^ nat i)"
  by (simp add: float_pow_def pow_in_range_def power_int_def)

lemma pow_in_range_0: "pow_in_range x 0"
  using DBL_MAX_ge by (simp add: pow_in_range_def)

lemma pow_in_range_small:
  assumes "\<bar>x\<bar> \<le> 2" and "0 \<le> i" and "i \<le> 1000"
  shows "pow_in_range x i"
proof -
  have "\<bar>x\<bar> ^ nat i \<le> 2 ^ nat i"
    using assms(1) by (intro power_mono) simp_all
  also have "\<dots> \<le> (2::real) ^ 1023"
    using assms(3) by (intro power_increasing) simp_all
  finally have "\<bar>x powi i\<bar> \<le> DBL_MAX"
    using assms(2) DBL_MAX_ge by (simp add: power_int_def power_abs)
  moreover have "\<bar>real_of_int i\<bar> \<le> 2 ^ 1023"
    using assms(2,3) by simp
  ultimately show ?thesis
    using DBL_MAX_ge unfolding pow_in_range_def by linarith
qed

lemma get_beta_value:
  "prioritized_memory ag \<Longrightarrow> 0 \<le> i \<Longrightarrow> pow_in_range beta_growth i \<Longrightarrow>
   get_beta ag i beta_start beta_end beta_growth
     = Inr (min (beta_start * beta_growth ^ nat i) beta_end)"
  by (simp add: get_beta_def float_pow_in_range)

lemma get_beta_not_prioritized:
  "\<not> prioritized_memory ag \<Longrightarrow> get_beta ag i beta_start beta_end beta_growth = Inl TypeError"
  by (simp add: get_beta_def)

lemma growth_doubles: "(2::real) \<le> (105 / 100) ^ 15"
  by (simp add: power_divide)

lemma default_growth_overflows: "DBL_MAX < \<bar>(105 / 100 :: real) powi 15360\<bar>"
proof -
  have "(2::real) ^ 1024 \<le> ((105 / 100) ^ 15) ^ 1024"
    by (rule power_mono[OF growth_doubles]) simp
  also have "\<dots> = (105 / 100 :: real) ^ 15360"
    by (simp only: power_mult[symmetric]) simp
  finally have "(2::real) ^ 1024 \<le> (105 / 100) ^ 15360" .
  moreover have "(105 / 100 :: real) powi 15360 = (105 / 100) ^ 15360"
    using power_int_of_nat[of "105 / 100 :: real" 15360] by simp
  ultimately show ?thesis
    using DBL_MAX_lt by simp
qed

lemma float_pow_overflows: "float_pow (105 / 100) 15360 = Inl OverflowError"
proof -
  have "\<not> DBL_MAX < \<bar>real_of_int 15360\<bar>"
    using DBL_MAX_ge by simp
  then show ?thesis
    using default_growth_overflows by (simp add: float_pow_def)
qed

text \<open>
  C6 (amended). On an agent with prioritized memory and for an episode index \<open>i \<ge> 0\<close>
  whose power \<open>beta_growth ^ i\<close> is within the doubles, \<^verbatim>\<open>get_beta\<close> returns
  \<open>min (beta_start * beta_growth ^ i) beta_end\<close>, which never exceeds \<open>beta_end\<close>;
  at index 0 it returns \<open>beta_start\<close> whenever \<open>beta_start \<le> beta_end\<close>; and the
  value at a later index \<open>j\<close> is at least the value at \<open>i\<close> provided
  \<open>0 \<le> beta_start\<close> and \<open>1 \<le> beta_growth\<close>, as with the defaults 0.4 and 1.05.
\<close>

theorem get_beta_schedule:
  assumes "prioritized_memory ag" and "0 \<le> i" and "pow_in_range beta_growth i"
  shows "get_beta ag i beta_start beta_end beta_growth
           = Inr (min (beta_start * beta_growth ^ nat i) beta_end)
         \<and> min (beta_start * beta_growth ^ nat i) beta_end \<le> beta_end
         \<and> (beta_start \<le> beta_end \<longrightarrow>
              get_beta ag 0 beta_start beta_end beta_growth = Inr beta_start)
         \<and> (\<forall>j. i \<le> j \<and> pow_in_range beta_growth j \<and> 0 \<le> beta_start \<and> 1 \<le> beta_growth \<longrightarrow>
              get_beta ag j beta_start beta_end beta_growth
                = Inr (min (beta_start * beta_growth ^ nat j) beta_end)
              \<and> min (beta_start * beta_growth ^ nat i) beta_end
                  \<le> min (beta_start * beta_growth ^ nat j) beta_end)"
proof (intro conjI allI impI)
  show "get_beta ag i beta_start beta_end beta_growth
          = Inr (min (beta_start * beta_growth ^ nat i) beta_end)"
    using assms by (rule get_beta_value)
  show "min (beta_start * beta_growth ^ nat i) beta_end \<le> beta_end"
    by simp
next
  assume "beta_start \<le> beta_end"
  then show "get_beta ag 0 beta_start beta_end beta_growth = Inr beta_start"
    using assms(1) by (simp add: get_beta_value pow_in_range_0)
next
  fix j
  assume j: "i \<le> j \<and> pow_in_range beta_growth j \<and> 0 \<le> beta_start \<and> 1 \<le> beta_growth"
  then have "0 \<le> j"
    using assms(2) by simp
  then show "get_beta ag j beta_start beta_end beta_growth
               = Inr (min (beta_start * beta_growth ^ nat j) beta_end)"
    using j assms(1) by (simp add: get_beta_value)
  have "beta_growth ^ nat i \<le> beta_growth ^ nat j"
    using j assms(2) by (intro power_increasing) (auto intro: nat_mono)
  then have "beta_start * beta_growth ^ nat i \<le> beta_start * beta_growth ^ nat j"
    using j by (intro mult_left_mono) simp_all
  then show "min (beta_start * beta_growth ^ nat i) beta_end
               \<le> min (beta_start * beta_growth ^ nat j) beta_end"
    by (simp add: min.coboundedI1)
qed

theorem get_beta_schedule_witness:
  "get_beta (toy_agent ((default_config 2 2)\<lparr>prioritized_memory := True\<rparr>)) 2 (4 / 10) 1 (105 / 100)
     = Inr (441 / 1000)
   \<and> get_beta (toy_agent ((default_config 2 2)\<lparr>prioritized_memory := True\<rparr>)) 0 (4 / 10) 1 (105 / 100)
     = Inr (4 / 10)
   \<and> get_beta (toy_agent ((default_config 2 2)\<lparr>prioritized_memory := True\<rparr>)) 20 (4 / 10) 1 (105 / 100)
     = Inr 1"
proof -
  let ?ag = "toy_agent ((default_config 2 2)\<lparr>prioritized_memory := True\<rparr>)"
  have p: "prioritized_memory ?ag"
    by (simp add: toy_agent_def init_def default_config_def)
  have r2: "pow_in_range (105 / 100) 2" and r20: "pow_in_range (105 / 100) 20"
    by (rule pow_in_range_small; simp)+
  have big: "(1::real) \<le> 4 / 10 * (105 / 100) ^ 20"
    by (simp add: power_divide)
  have "nat 20 = 20" "nat 2 = 2"
    by simp_all
  with get_beta_schedule[OF p _ r2, of "4 / 10" 1] big r20 show ?thesis
    by (simp add: power2_eq_square)
qed

text \<open>
  The claim C6 as written, monotone for every schedule, fails where the schedule shrinks:
  with \<^verbatim>\<open>beta_growth = 0.5\<close> the value at index 1 is below the value at index 0.
\<close>

theorem get_beta_not_monotone:
  "get_beta (toy_agent ((default_config 2 2)\<lparr>prioritized_memory := True\<rparr>)) 0 (4 / 10) 1 (1 / 2)
     = Inr (4 / 10)
   \<and> get_beta (toy_agent ((default_config 2 2)\<lparr>prioritized_memory := True\<rparr>)) 1 (4 / 10) 1 (1 / 2)
     = Inr (2 / 10)
   \<and> \<not> ((4 / 10 :: real) \<le> 2 / 10)"
proof -
  let ?ag = "toy_agent ((default_config 2 2)\<lparr>prioritized_memory := True\<rparr>)"
  have p: "prioritized_memory ?ag"
    by (simp add: toy_agent_def init_def default_config_def)
  have r0: "pow_in_range (1 / 2) 0" and r1: "pow_in_range (1 / 2) 1"
    by (rule pow_in_range_small; simp)+
  show ?thesis
    using get_beta_value[OF p _ r0, of "4 / 10" 1] get_beta_value[OF p _ r1, of "4 / 10" 1]
    by simp
qed

text \<open>
  C7. On an agent with prioritized memory \<^verbatim>\<open>get_beta\<close> is meant to return the schedule
  value, capped at \<open>beta_end\<close>; with the default schedule and the episode index 15360 it
  raises OverflowError instead, since \<^verbatim>\<open>1.05 ** 15360\<close> is beyond the doubles and Python
  raises before \<^verbatim>\<open>min\<close> is reached.
\<close>

theorem get_beta_raises_overflow:
  "prioritized_memory ag \<Longrightarrow> get_beta ag 15360 (4 / 10) 1 (105 / 100) = Inl OverflowError"
  using float_pow_overflows by (simp add: get_beta_def)

theorem get_beta_raises_overflow_witness:
  "get_beta (toy_agent ((default_config 2 2)\<lparr>prioritized_memory := True\<rparr>)) 15360 (4 / 10) 1 (105 / 100)
     = Inl OverflowError"
proof -
  have "prioritized_memory (toy_agent ((default_config 2 2)\<lparr>prioritized_memory := True\<rparr>))"
    by (simp add: toy_agent_def init_def default_config_def)
  then show ?thesis
    by (rule get_beta_raises_overflow)
qed

section \<open>The learning cadence with prioritized memory\<close>

lemma step_no_wrap:
  assumes "update_every ag \<noteq> 0" and "(t_step ag + 1) mod update_every ag \<noteq> 0"
  shows "step env ag state action reward next_state d episode sample =
           Inr (ag\<lparr>memory := mem_add (memory ag) (preprocessed env state action reward next_state d),
                  t_step := (t_step ag + 1) mod update_every ag\<rparr>)"
  using assms by (intro step_no_learn) simp_all

lemma preprocessed_toy:
  "preprocessed toy_env [0] 1 5 [1] True =
     \<lparr>tr_state = [0], tr_action = 1, tr_reward = 5, tr_next_state = [1 / 2], tr_done = True\<rparr>"
  by (simp add: preprocessed_def toy_env_def)

lemma prioritized_seeded_facts:
  "update_every prioritized_seeded_agent = 4" "batch_size prioritized_seeded_agent = 64"
  "t_step prioritized_seeded_agent = 0" "prioritized_memory prioritized_seeded_agent"
  "losses prioritized_seeded_agent = []"
  "length (buffer (memory prioritized_seeded_agent)) = 100"
  "capacity (memory prioritized_seeded_agent) = 100000"
  "qnet_local prioritized_seeded_agent = [1, 3]" "qnet_target prioritized_seeded_agent = [2, 0]"
  by (simp_all add: prioritized_seeded_agent_def toy_agent_def init_def default_config_def)

lemma three_steps_in_episode:
  "run toy_env prioritized_seeded_agent
     [step_in_episode e1, step_in_episode e2, step_in_episode e3] =
     Inr (prioritized_seeded_agent
            \<lparr>memory := mem_add (mem_add (mem_add (memory prioritized_seeded_agent)
                 (preprocessed toy_env [0] 1 5 [1] True))
                 (preprocessed toy_env [0] 1 5 [1] True))
                 (preprocessed toy_env [0] 1 5 [1] True),
             t_step := 3\<rparr>)"
  by (simp add: step_in_episode_def step_no_wrap prioritized_seeded_facts)

lemma fourth_step_overflows:
  assumes "update_every ag = 4" "batch_size ag = 64" "t_step ag = 3" "prioritized_memory ag"
    and "64 \<le> length (buffer (memory ag))" "65 \<le> capacity (memory ag)"
  shows "do_call toy_env ag (step_in_episode 15360) = Inl OverflowError"
proof -
  have big: "batch_size ag < mem_len (mem_add (memory ag) (preprocessed toy_env [0] 1 5 [1] True))"
    using assms by (simp add: mem_len_def mem_add_length)
  have g: "get_beta (ag\<lparr>memory := mem_add (memory ag) (preprocessed toy_env [0] 1 5 [1] True),
                       t_step := 0\<rparr>) 15360 (4 / 10) 1 (105 / 100) = Inl OverflowError"
    using assms(4) float_pow_overflows by (simp add: get_beta_def)
  show ?thesis
    unfolding step_in_episode_def do_call.simps
    by (subst step_learn[OF _ _ big refl]) (use assms g in simp_all)
qed

lemma fourth_step_learns:
  assumes "update_every ag = 4" "batch_size ag = 64" "t_step ag = 3" "prioritized_memory ag"
    and "64 \<le> length (buffer (memory ag))" "65 \<le> capacity (memory ag)"
    and "qnet_local ag = [1, 3]" "qnet_target ag = [2, 0]"
  shows "\<exists>ag'. do_call toy_env ag (step_in_episode 0) = Inr ag'
               \<and> length (losses ag') = length (losses ag) + 1"
proof -
  have big: "batch_size ag < mem_len (mem_add (memory ag) (preprocessed toy_env [0] 1 5 [1] True))"
    using assms by (simp add: mem_len_def mem_add_length)
  have g: "get_beta (ag\<lparr>memory := mem_add (memory ag) (preprocessed toy_env [0] 1 5 [1] True),
                       t_step := 0\<rparr>) 0 (4 / 10) 1 (105 / 100) = Inr (4 / 10)"
    using assms(4) by (simp add: get_beta_value pow_in_range_0)
  have "\<exists>ag'. do_call toy_env ag (step_in_episode 0) = Inr ag'"
    unfolding step_in_episode_def do_call.simps
    apply (subst step_learn[OF _ _ big refl])
    using assms g
      apply (simp_all add: learn_def Q_targets_def Q_targets_next_def Q_expected_def gather_def
        toy_env_def terminal_row_def Let_def split: prod.splits)
    done
  then obtain ag' where r: "do_call toy_env ag (step_in_episode 0) = Inr ag'" ..
  have "is_step (step_in_episode 0)"
    by (simp add: step_in_episode_def)
  from step_call_fields[OF this r] assms have "length (losses ag') = length (losses ag) + 1"
    by simp
  with r show ?thesis by blast
qed


text \<open>
  C2. \<^verbatim>\<open>step\<close> is meant to run \<^verbatim>\<open>learn\<close> whenever the counter wraps and the memory
  holds more than \<open>batch_size\<close> transitions. With prioritized memory it first evaluates
  \<^verbatim>\<open>get_beta(episode)\<close>, which raises OverflowError from episode 14548 on. In the
  scenario of the claim (\<open>update_every = 4\<close>, \<open>batch_size = 64\<close>, 100 stored
  transitions, counter at 0) on an agent with prioritized memory, three \<^verbatim>\<open>step\<close> calls
  in episode 15360 return, having stored the preprocessed transitions and recorded no loss,
  and the fourth raises OverflowError before \<^verbatim>\<open>learn\<close>; the same four calls in
  episode 0 record one loss.
\<close>

theorem step_raises_before_learn:
  "update_every prioritized_seeded_agent = 4 \<and> batch_size prioritized_seeded_agent = 64
   \<and> t_step prioritized_seeded_agent = 0 \<and> prioritized_memory prioritized_seeded_agent
   \<and> mem_len (memory prioritized_seeded_agent) = 100
   \<and> losses prioritized_seeded_agent = []
   \<and> map_sum id t_step (run toy_env prioritized_seeded_agent
        [step_in_episode 15360, step_in_episode 15360, step_in_episode 15360]) = Inr 3
   \<and> map_sum id losses (run toy_env prioritized_seeded_agent
        [step_in_episode 15360, step_in_episode 15360, step_in_episode 15360]) = Inr []
   \<and> map_sum id (mem_len \<circ> memory) (run toy_env prioritized_seeded_agent
        [step_in_episode 15360, step_in_episode 15360, step_in_episode 15360]) = Inr 103
   \<and> map_sum id (last \<circ> buffer \<circ> memory) (run toy_env prioritized_seeded_agent
        [step_in_episode 15360, step_in_episode 15360, step_in_episode 15360])
       = Inr \<lparr>tr_state = [0], tr_action = 1, tr_reward = 5, tr_next_state = [1 / 2], tr_done = True\<rparr>
   \<and> run toy_env prioritized_seeded_agent
        [step_in_episode 15360, step_in_episode 15360, step_in_episode 15360, step_in_episode 15360]
       = Inl OverflowError
   \<and> map_sum id (length \<circ> losses) (run toy_env prioritized_seeded_agent
        [step_in_episode 0, step_in_episode 0, step_in_episode 0, step_in_episode 0]) = Inr 1"
proof -
  let ?tr = "preprocessed toy_env [0] 1 5 [1] True"
  let ?ag3 = "prioritized_seeded_agent
            \<lparr>memory := mem_add (mem_add (mem_add (memory prioritized_seeded_agent) ?tr) ?tr) ?tr,
             t_step := 3\<rparr>"
  have len3: "length (buffer (memory ?ag3)) = 103"
    by (simp add: mem_add_length prioritized_seeded_facts mem_add_def)
  have last3: "last (buffer (memory ?ag3)) = ?tr"
    by (simp add: mem_add_def prioritized_seeded_facts)
  have f3: "update_every ?ag3 = 4" "batch_size ?ag3 = 64" "t_step ?ag3 = 3" "prioritized_memory ?ag3"
    "64 \<le> length (buffer (memory ?ag3))" "65 \<le> capacity (memory ?ag3)"
    "qnet_local ?ag3 = [1, 3]" "qnet_target ?ag3 = [2, 0]" "losses ?ag3 = []"
    using len3 by (simp_all add: prioritized_seeded_facts mem_add_def)
  have late: "do_call toy_env ?ag3 (step_in_episode 15360) = Inl OverflowError"
    using f3 by (intro fourth_step_overflows)
  obtain ag4 where early: "do_call toy_env ?ag3 (step_in_episode 0) = Inr ag4"
    and l4: "length (losses ag4) = length (losses ?ag3) + 1"
    using fourth_step_learns[of ?ag3] f3 by blast
  have r4: "run toy_env prioritized_seeded_agent
        [step_in_episode 15360, step_in_episode 15360, step_in_episode 15360, step_in_episode 15360]
       = Inl OverflowError"
    using run_append[of toy_env prioritized_seeded_agent
        "[step_in_episode 15360, step_in_episode 15360, step_in_episode 15360]"
        "[step_in_episode 15360]"] three_steps_in_episode[of 15360 15360 15360] late
    by simp
  have e4: "run toy_env prioritized_seeded_agent
        [step_in_episode 0, step_in_episode 0, step_in_episode 0, step_in_episode 0] = Inr ag4"
    using run_append[of toy_env prioritized_seeded_agent
        "[step_in_episode 0, step_in_episode 0, step_in_episode 0]"
        "[step_in_episode 0]"] three_steps_in_episode[of 0 0 0] early
    by simp
  show ?thesis
    unfolding r4 e4 three_steps_in_episode
    using len3 last3 l4 f3(9)
    by (simp add: prioritized_seeded_facts mem_len_def preprocessed_toy)
qed

section \<open>The exploration rate\<close>

lemma toy_agent_exploration:
  "epsilon_enabled (toy_agent (default_config 2 2))"
  "epsilon_end (toy_agent (default_config 2 2)) = 1 / 100"
  "epsilon_decay (toy_agent (default_config 2 2)) = 995 / 1000"
  "epsilon (toy_agent (default_config 2 2)) = 1"
  by (simp_all add: toy_agent_def init_def default_config_def)

lemma toy_run_act:
  "run toy_env (toy_agent (default_config 2 2)) [Act [0] (1 / 2) 1]
     = Inr ((toy_agent (default_config 2 2))\<lparr>epsilon := 995 / 1000\<rparr>)"
  by (simp add: act_def toy_env_def toy_agent_def init_def default_config_def decay_eps_def Let_def)

lemma toy_run_step_act:
  "run toy_env ((toy_agent (default_config 2 2))\<lparr>epsilon := 995 / 1000\<rparr>)
       [Step [0] 1 5 [1] True 0 (\<lambda>m beta. Batch5 (take 1 (buffer m))), Act [0] (999 / 1000) 0]
     = Inr ((toy_agent (default_config 2 2))
          \<lparr>epsilon := 990025 / 1000000,
           memory := mem_add (memory (toy_agent (default_config 2 2)))
             \<lparr>tr_state = [0], tr_action = 1, tr_reward = 5, tr_next_state = [1 / 2], tr_done = True\<rparr>,
           t_step := 1\<rparr>)"
  by (simp add: act_def step_def preprocessed_def toy_env_def toy_agent_def init_def
      default_config_def decay_eps_def Let_def mem_add_def mem_len_def)

text \<open>
  C5 (amended). An \<^verbatim>\<open>act\<close> call that returns sets \<open>epsilon\<close> to
  \<open>max epsilon_end (epsilon_decay * epsilon)\<close> when exploration is enabled and leaves it
  unchanged otherwise, and it returns whenever the agent has an action and the network a
  value; \<^verbatim>\<open>step\<close> and \<^verbatim>\<open>learn\<close> never change \<open>epsilon\<close>. Provided
  \<open>0 \<le> epsilon_end \<le> epsilon\<close> and \<open>epsilon_decay \<le> 1\<close>, along any sequence of
  calls (\<^verbatim>\<open>act\<close>, \<^verbatim>\<open>step\<close>, \<^verbatim>\<open>learn\<close>, \<^verbatim>\<open>soft_update\<close>,
  \<^verbatim>\<open>load_model\<close>) \<open>epsilon\<close> never rises and never falls below \<open>epsilon_end\<close>.
  With exploration disabled \<open>epsilon\<close> is 0 at construction and after every such
  sequence of calls.
\<close>

theorem epsilon_decay_schedule:
  "(\<forall>a ag'. act env ag state u k = Inr (a, ag') \<longrightarrow>
      epsilon ag' = (if epsilon_enabled ag
                     then max (epsilon_end ag) (epsilon_decay ag * epsilon ag)
                     else epsilon ag))
   \<and> (0 < action_size ag \<and> qnet env (qnet_local ag) (prep_state env state) \<noteq> [] \<longrightarrow>
        (\<exists>a ag'. act env ag state u k = Inr (a, ag')))
   \<and> (\<forall>ag'. step env ag state action reward next_state done episode sample = Inr ag' \<longrightarrow>
        epsilon ag' = epsilon ag)
   \<and> (\<forall>ag'. learn env ag exps = Inr ag' \<longrightarrow> epsilon ag' = epsilon ag)
   \<and> (\<forall>ag1 ag2. run env ag cs = Inr ag1 \<and> run env ag1 cs' = Inr ag2
         \<and> 0 \<le> epsilon_end ag \<and> epsilon_end ag \<le> epsilon ag \<and> epsilon_decay ag \<le> 1 \<longrightarrow>
        epsilon_end ag \<le> epsilon ag2 \<and> epsilon ag2 \<le> epsilon ag1 \<and> epsilon ag1 \<le> epsilon ag)
   \<and> (\<forall>ag'. \<not> epsilon_enabled ag \<and> run env ag cs = Inr ag' \<longrightarrow> epsilon ag' = epsilon ag)
   \<and> (\<not> epsilon_enabled cfg \<longrightarrow>
        epsilon (init cfg local target opt) = 0
        \<and> (\<forall>ag'. run env (init cfg local target opt) cs = Inr ag' \<longrightarrow> epsilon ag' = 0))"
proof (intro conjI allI impI)
  fix a ag'
  assume "act env ag state u k = Inr (a, ag')"
  from act_result(1)[OF this]
  show "epsilon ag' = (if epsilon_enabled ag
                       then max (epsilon_end ag) (epsilon_decay ag * epsilon ag)
                       else epsilon ag)"
    by (simp add: decay_eps_fields)
next
  assume h: "0 < action_size ag \<and> qnet env (qnet_local ag) (prep_state env state) \<noteq> []"
  then obtain a where a: "argmax (qnet env (qnet_local ag) (prep_state env state)) = Inr a"
    using argmax_returns by blast
  show "\<exists>a ag'. act env ag state u k = Inr (a, ag')"
  proof (cases "epsilon_enabled ag \<and> u < epsilon ag")
    case True
    then show ?thesis using h act_random[of ag u env state k] by blast
  next
    case False
    then show ?thesis using act_greedy[OF False a, of k] by blast
  qed
next
  fix ag'
  assume "step env ag state action reward next_state done episode sample = Inr ag'"
  from step_fields[OF this] show "epsilon ag' = epsilon ag" by simp
next
  fix ag'
  assume "learn env ag exps = Inr ag'"
  from learn_fields[OF this] show "epsilon ag' = epsilon ag" by simp
next
  fix ag1 ag2
  assume h: "run env ag cs = Inr ag1 \<and> run env ag1 cs' = Inr ag2
         \<and> 0 \<le> epsilon_end ag \<and> epsilon_end ag \<le> epsilon ag \<and> epsilon_decay ag \<le> 1"
  then have r1: "run env ag cs = Inr ag1" and r2: "run env ag1 cs' = Inr ag2"
    by simp_all
  note e1 = run_epsilon[OF r1]
  note e2 = run_epsilon[OF r2]
  from e1 h have b1: "epsilon_end ag \<le> epsilon ag1 \<and> epsilon ag1 \<le> epsilon ag"
    by simp
  with e1 e2 h have b2: "epsilon_end ag \<le> epsilon ag2 \<and> epsilon ag2 \<le> epsilon ag1"
    by simp
  from b1 b2 show "epsilon_end ag \<le> epsilon ag2" "epsilon ag2 \<le> epsilon ag1" "epsilon ag1 \<le> epsilon ag"
    by simp_all
next
  fix ag'
  assume "\<not> epsilon_enabled ag \<and> run env ag cs = Inr ag'"
  then show "epsilon ag' = epsilon ag"
    using run_epsilon[of env ag cs ag'] by simp
next
  assume d: "\<not> epsilon_enabled cfg"
  then show "epsilon (init cfg local target opt) = 0"
    by (simp add: init_def)
  fix ag'
  assume "run env (init cfg local target opt) cs = Inr ag'"
  from run_epsilon[OF this] d show "epsilon ag' = 0"
    by (simp add: init_def)
qed

theorem epsilon_decay_schedule_witness:
  "run toy_env (toy_agent (default_config 2 2)) [Act [0] (1 / 2) 1]
     = Inr ((toy_agent (default_config 2 2))\<lparr>epsilon := 995 / 1000\<rparr>)
   \<and> epsilon_end (toy_agent (default_config 2 2)) \<le> 990025 / 1000000
   \<and> (990025 / 1000000 :: real) \<le> 995 / 1000
   \<and> 995 / 1000 \<le> epsilon (toy_agent (default_config 2 2))"
proof -
  let ?ag = "toy_agent (default_config 2 2)"
  let ?ag1 = "?ag\<lparr>epsilon := 995 / 1000\<rparr>"
  let ?ag2 = "?ag\<lparr>epsilon := 990025 / 1000000,
           memory := mem_add (memory ?ag)
             \<lparr>tr_state = [0], tr_action = 1, tr_reward = 5, tr_next_state = [1 / 2], tr_done = True\<rparr>,
           t_step := 1\<rparr>"
  have h: "run toy_env ?ag [Act [0] (1 / 2) 1] = Inr ?ag1
        \<and> run toy_env ?ag1
              [Step [0] 1 5 [1] True 0 (\<lambda>m beta. Batch5 (take 1 (buffer m))), Act [0] (999 / 1000) 0]
            = Inr ?ag2
        \<and> 0 \<le> epsilon_end ?ag \<and> epsilon_end ?ag \<le> epsilon ?ag \<and> epsilon_decay ?ag \<le> 1"
    using toy_run_act toy_run_step_act by (simp add: toy_agent_exploration)
  have "epsilon_end ?ag \<le> epsilon ?ag2 \<and> epsilon ?ag2 \<le> epsilon ?ag1 \<and> epsilon ?ag1 \<le> epsilon ?ag"
    using epsilon_decay_schedule[of toy_env ?ag] h by blast
  then show ?thesis
    using toy_run_act by simp
qed

text \<open>
  The claim C5 as written, for every agent, fails where the constructor is given a floor
  above the start value, or a decay factor above 1: one \<^verbatim>\<open>act\<close> call raises
  \<open>epsilon\<close> from 0.1 to 0.5, or from 0.1 to 0.2.
\<close>

theorem epsilon_rises:
  "epsilon (toy_agent ((default_config 2 2)\<lparr>epsilon_start := 1 / 10, epsilon_end := 1 / 2\<rparr>)) = 1 / 10
   \<and> act toy_env (toy_agent ((default_config 2 2)\<lparr>epsilon_start := 1 / 10, epsilon_end := 1 / 2\<rparr>))
         [0] (3 / 4) 0
       = Inr (1, (toy_agent ((default_config 2 2)\<lparr>epsilon_start := 1 / 10, epsilon_end := 1 / 2\<rparr>))
                   \<lparr>epsilon := 1 / 2\<rparr>)
   \<and> epsilon (toy_agent ((default_config 2 2)\<lparr>epsilon_start := 1 / 10, epsilon_decay := 2\<rparr>)) = 1 / 10
   \<and> act toy_env (toy_agent ((default_config 2 2)\<lparr>epsilon_start := 1 / 10, epsilon_decay := 2\<rparr>))
         [0] (3 / 4) 0
       = Inr (1, (toy_agent ((default_config 2 2)\<lparr>epsilon_start := 1 / 10, epsilon_decay := 2\<rparr>))
                   \<lparr>epsilon := 2 / 10\<rparr>)"
  by (simp add: act_def toy_env_def toy_agent_def init_def default_config_def decay_eps_def Let_def)

text \<open>
  C10. With exploration enabled, \<^verbatim>\<open>act\<close> compares the draw \<open>u\<close> with the
  \<open>epsilon\<close> it holds on entry: below it the random action \<open>k\<close> is returned, otherwise
  the arg-max of the local network's values. Either way the agent returned with the action is
  the one on entry after one \<^verbatim>\<open>decay_eps\<close>, whose \<open>epsilon\<close> is
  \<open>max epsilon_end (epsilon_decay * epsilon)\<close>.
\<close>

theorem act_decides_then_decays:
  "(epsilon_enabled ag \<and> u < epsilon ag \<and> 0 < action_size ag \<longrightarrow>
      act env ag state u k = Inr (k, decay_eps ag))
   \<and> (epsilon_enabled ag \<and> \<not> u < epsilon ag
        \<and> argmax (qnet env (qnet_local ag) (prep_state env state)) = Inr a \<longrightarrow>
      act env ag state u k = Inr (a, decay_eps ag))
   \<and> (\<forall>b ag'. epsilon_enabled ag \<and> act env ag state u k = Inr (b, ag') \<longrightarrow>
        ag' = decay_eps ag
        \<and> (if u < epsilon ag then b = k
            else argmax (qnet env (qnet_local ag) (prep_state env state)) = Inr b))
   \<and> decay_eps ag = ag\<lparr>epsilon := max (epsilon_end ag) (epsilon_decay ag * epsilon ag)\<rparr>"
proof (intro conjI allI impI)
  assume "epsilon_enabled ag \<and> u < epsilon ag \<and> 0 < action_size ag"
  then show "act env ag state u k = Inr (k, decay_eps ag)"
    by (simp add: act_random)
next
  assume h: "epsilon_enabled ag \<and> \<not> u < epsilon ag
        \<and> argmax (qnet env (qnet_local ag) (prep_state env state)) = Inr a"
  then have "\<not> (epsilon_enabled ag \<and> u < epsilon ag)"
    by simp
  from act_greedy[OF this, of env state a k] h
  show "act env ag state u k = Inr (a, decay_eps ag)"
    by simp
next
  fix b ag'
  assume h: "epsilon_enabled ag \<and> act env ag state u k = Inr (b, ag')"
  then have r: "act env ag state u k = Inr (b, ag')"
    by simp
  from act_result(1)[OF r] h show "ag' = decay_eps ag"
    by simp
  from act_result(2)[OF r] h
  show "if u < epsilon ag then b = k
        else argmax (qnet env (qnet_local ag) (prep_state env state)) = Inr b"
    by (simp split: if_splits)
next
  show "decay_eps ag = ag\<lparr>epsilon := max (epsilon_end ag) (epsilon_decay ag * epsilon ag)\<rparr>"
    by (simp add: decay_eps_def)
qed

theorem act_decides_then_decays_witness:
  "act toy_env (toy_agent (default_config 2 2)) [0] (999 / 1000) 0
     = Inr (0, decay_eps (toy_agent (default_config 2 2)))
   \<and> epsilon (decay_eps (toy_agent (default_config 2 2))) = 995 / 1000
   \<and> act toy_env (toy_agent ((default_config 2 2)\<lparr>epsilon_start := 1 / 2\<rparr>)) [0] (3 / 4) 0
     = Inr (1, decay_eps (toy_agent ((default_config 2 2)\<lparr>epsilon_start := 1 / 2\<rparr>)))"
proof -
  let ?ag = "toy_agent (default_config 2 2)"
  let ?ag' = "toy_agent ((default_config 2 2)\<lparr>epsilon_start := 1 / 2\<rparr>)"
  have 1: "epsilon_enabled ?ag \<and> 999 / 1000 < epsilon ?ag \<and> 0 < action_size ?ag"
    by (simp add: toy_agent_def init_def default_config_def)
  have 2: "epsilon_enabled ?ag' \<and> \<not> 3 / 4 < epsilon ?ag'
        \<and> argmax (qnet toy_env (qnet_local ?ag') (prep_state toy_env [0])) = Inr 1"
    by (simp add: toy_agent_def init_def default_config_def toy_env_def)
  have 3: "epsilon (decay_eps ?ag) = 995 / 1000"
    by (simp add: decay_eps_def toy_agent_exploration)
  from act_decides_then_decays[where ag = ?ag and u = "999 / 1000" and env = toy_env
         and state = "[0]" and k = 0] 1
       act_decides_then_decays[where ag = ?ag' and u = "3 / 4" and env = toy_env
         and state = "[0]" and k = 0 and a = 1] 2 3
  show ?thesis
    by blast
qed

section \<open>The training target\<close>

lemma map_result_Inr:
  "map_result f xs = Inr ys \<Longrightarrow>
   length ys = length xs \<and> (\<forall>k < length xs. f (xs ! k) = Inr (ys ! k))"
proof (induction xs arbitrary: ys)
  case Nil
  then show ?case by simp
next
  case (Cons x xs)
  then obtain y ys' where y: "f x = Inr y" and r: "map_result f xs = Inr ys'" and e: "ys = y # ys'"
    by (auto split: sum.splits)
  from Cons.IH[OF r] y e show ?case
    by (auto simp: nth_Cons split: nat.splits)
qed

lemma map_result_returns:
  "(\<forall>x \<in> set xs. \<exists>y. f x = Inr y) \<Longrightarrow> \<exists>ys. map_result f xs = Inr ys"
  by (induction xs) auto

lemma fold_max_Max: "fold max xs x = Max (insert x (set xs))"
  using Max.set_eq_fold[of x xs] by simp

lemma row_max_Max: "xs \<noteq> [] \<Longrightarrow> row_max xs = Inr (Max (set xs))"
  by (cases xs) (simp_all add: fold_max_Max)

lemma row_max_Inr: "row_max xs = Inr m \<Longrightarrow> xs \<noteq> [] \<and> m = Max (set xs)"
  by (cases xs) (auto simp: fold_max_Max)

lemma Q_targets_next_Inr:
  assumes "Q_targets_next env ag next_states = Inr nxt"
  shows "length nxt = length next_states
       \<and> (\<forall>k < length next_states.
             qnet env (qnet_target ag) (next_states ! k) \<noteq> []
             \<and> nxt ! k = Max (set (qnet env (qnet_target ag) (next_states ! k))))"
  using map_result_Inr[OF assms[unfolded Q_targets_next_def]] row_max_Inr by blast

lemma Q_targets_Inr:
  assumes "Q_targets env ag rows = Inr Qt"
  shows "length Qt = length rows
       \<and> (\<forall>k < length rows.
             qnet env (qnet_target ag) (tr_next_state (rows ! k)) \<noteq> []
             \<and> Qt ! k = tr_reward (rows ! k)
                 + gamma ag * Max (set (qnet env (qnet_target ag) (tr_next_state (rows ! k))))
                   * (1 - of_bool (tr_done (rows ! k))))"
proof -
  from assms obtain nxt where n: "Q_targets_next env ag (map tr_next_state rows) = Inr nxt"
    and q: "Qt = map (\<lambda>(reward, q, done). reward + gamma ag * q * (1 - done))
                 (zip (map tr_reward rows) (zip nxt (map (of_bool \<circ> tr_done) rows)))"
    by (auto simp: Q_targets_def split: sum.splits)
  note f = Q_targets_next_Inr[OF n]
  then have l: "length nxt = length rows" by simp
  show ?thesis
    using f l by (simp add: q)
qed

lemma Q_targets_returns:
  assumes "\<forall>tr \<in> set rows. qnet env (qnet_target ag) (tr_next_state tr) \<noteq> []"
  shows "\<exists>Qt. Q_targets env ag rows = Inr Qt"
proof -
  have "\<exists>nxt. Q_targets_next env ag (map tr_next_state rows) = Inr nxt"
    unfolding Q_targets_next_def
    using assms by (intro map_result_returns) (auto simp: row_max_Max)
  then show ?thesis
    by (auto simp: Q_targets_def)
qed

lemma learn_loss:
  assumes "learn env ag exps = Inr ag'"
  shows "\<exists>Qt Qe. Q_targets env ag (rows_of exps) = Inr Qt
           \<and> Q_expected env (qnet_local ag) (rows_of exps) = Inr Qe
           \<and> (\<not> prioritized_memory ag \<longrightarrow> losses ag' = losses ag @ [mse_loss Qe Qt])"
  using assms
  unfolding learn_def mse_loss_prioritized_def soft_update_def Let_def
  by (auto split: sum.splits experiences.splits prod.splits if_splits)

lemma learn_uses_targets:
  assumes "learn env ag exps = Inr ag'"
  shows "\<exists>Qt Qe. Q_targets env ag (rows_of exps) = Inr Qt
           \<and> Q_expected env (qnet_local ag) (rows_of exps) = Inr Qe
           \<and> losses ag' = losses ag @
                [if prioritized_memory ag
                 then fst (mse_loss_prioritized ag Qe Qt (index_of exps) (weights_of exps))
                 else mse_loss Qe Qt]
           \<and> (optimizer ag', qnet_local ag')
               = optimizer_step env (optimizer ag)
                   (loss_of env ag (rows_of exps) (index_of exps) (weights_of exps) Qt)
                   (qnet_local ag)"
  using assms
  unfolding learn_def mse_loss_prioritized_def soft_update_def Let_def
  by (auto split: sum.splits experiences.splits prod.splits if_splits)

text \<open>
  C1. When \<^verbatim>\<open>Q_targets\<close> returns, it holds one target per sample, equal to
  \<open>reward + gamma * (maximum of the target network's values at next_state) * (1 - done)\<close>,
  and equal to the reward alone on a terminal transition, whatever the target network's
  values; it returns whenever the target network gives at least one value for every sample.
  In both memory variants \<^verbatim>\<open>learn\<close> computes its loss against these targets, and the
  loss the optimizer differentiates is a function of the local network's parameters with the
  targets as constants.
\<close>

theorem learn_targets:
  "(\<forall>Qt. Q_targets env ag rows = Inr Qt \<longrightarrow>
      length Qt = length rows
      \<and> (\<forall>k. k < length rows \<longrightarrow>
            Qt ! k = tr_reward (rows ! k)
                + gamma ag * Max (set (qnet env (qnet_target ag) (tr_next_state (rows ! k))))
                  * (1 - of_bool (tr_done (rows ! k)))
            \<and> (tr_done (rows ! k) \<longrightarrow> Qt ! k = tr_reward (rows ! k))))
   \<and> ((\<forall>tr \<in> set rows. qnet env (qnet_target ag) (tr_next_state tr) \<noteq> []) \<longrightarrow>
        (\<exists>Qt. Q_targets env ag rows = Inr Qt))
   \<and> (\<forall>ag'. learn env ag exps = Inr ag' \<longrightarrow>
        (\<exists>Qt Qe. Q_targets env ag (rows_of exps) = Inr Qt
           \<and> Q_expected env (qnet_local ag) (rows_of exps) = Inr Qe
           \<and> losses ag' = losses ag @
                [if prioritized_memory ag
                 then fst (mse_loss_prioritized ag Qe Qt (index_of exps) (weights_of exps))
                 else mse_loss Qe Qt]
           \<and> (optimizer ag', qnet_local ag')
               = optimizer_step env (optimizer ag)
                   (loss_of env ag (rows_of exps) (index_of exps) (weights_of exps) Qt)
                   (qnet_local ag)))"
proof (intro conjI allI impI)
  fix Qt
  assume q: "Q_targets env ag rows = Inr Qt"
  note f = Q_targets_Inr[OF q]
  from f show "length Qt = length rows"
    by simp
  fix k
  assume k: "k < length rows"
  with f show v: "Qt ! k = tr_reward (rows ! k)
                + gamma ag * Max (set (qnet env (qnet_target ag) (tr_next_state (rows ! k))))
                  * (1 - of_bool (tr_done (rows ! k)))"
    by simp
  assume "tr_done (rows ! k)"
  with v show "Qt ! k = tr_reward (rows ! k)"
    by simp
next
  assume "\<forall>tr \<in> set rows. qnet env (qnet_target ag) (tr_next_state tr) \<noteq> []"
  then show "\<exists>Qt. Q_targets env ag rows = Inr Qt"
    by (rule Q_targets_returns)
next
  fix ag'
  assume "learn env ag exps = Inr ag'"
  then show "\<exists>Qt Qe. Q_targets env ag (rows_of exps) = Inr Qt
           \<and> Q_expected env (qnet_local ag) (rows_of exps) = Inr Qe
           \<and> losses ag' = losses ag @
                [if prioritized_memory ag
                 then fst (mse_loss_prioritized ag Qe Qt (index_of exps) (weights_of exps))
                 else mse_loss Qe Qt]
           \<and> (optimizer ag', qnet_local ag')
               = optimizer_step env (optimizer ag)
                   (loss_of env ag (rows_of exps) (index_of exps) (weights_of exps) Qt)
                   (qnet_local ag)"
    by (rule learn_uses_targets)
qed

lemma toy_targets:
  "Q_targets toy_env (toy_agent (default_config 2 2)) [terminal_row, terminal_row\<lparr>tr_done := False\<rparr>]
     = Inr [5, 797 / 100]"
  by (simp add: Q_targets_def Q_targets_next_def toy_env_def toy_agent_def init_def
      default_config_def terminal_row_def)

theorem learn_targets_witness:
  "Q_targets toy_env (toy_agent (default_config 2 2)) [terminal_row, terminal_row\<lparr>tr_done := False\<rparr>]
     = Inr [5, 797 / 100]
   \<and> gamma (toy_agent (default_config 2 2)) = 99 / 100
   \<and> tr_done terminal_row \<and> tr_reward terminal_row = 5
   \<and> [5, 797 / 100 :: real] ! 0 = tr_reward terminal_row"
proof -
  let ?rows = "[terminal_row, terminal_row\<lparr>tr_done := False\<rparr>]"
  have "(0::nat) < length ?rows" "tr_done (?rows ! 0)" "?rows ! 0 = terminal_row"
    by (simp_all add: terminal_row_def)
  with learn_targets[of toy_env "toy_agent (default_config 2 2)" ?rows] toy_targets
  have "[5, 797 / 100 :: real] ! 0 = tr_reward terminal_row"
    by metis
  then show ?thesis
    using toy_targets
    by (simp add: terminal_row_def toy_agent_def init_def default_config_def)
qed

section \<open>The prioritized loss\<close>

lemma map_upds_nth:
  assumes "distinct xs" and "length ys = length xs" and "k < length xs"
  shows "(m(xs [\<mapsto>] ys)) (xs ! k) = Some (ys ! k)"
  using assms
proof (induction xs arbitrary: ys m k)
  case Nil
  then show ?case by simp
next
  case (Cons a xs)
  then obtain b ys' where ys: "ys = b # ys'"
    by (cases ys) auto
  show ?case
  proof (cases k)
    case 0
    then show ?thesis
      using Cons.prems ys by simp
  next
    case (Suc j)
    then show ?thesis
      using Cons ys nth_mem[of j xs] by auto
  qed
qed

lemma update_priority_nth:
  assumes "distinct index" and "length prios = length index" and "k < length index"
  shows "priorities (update_priority m index prios) (index ! k) = Some (prios ! k)"
  using map_upds_nth[OF assms] by (simp add: update_priority_def)

lemma squared_errors_nth:
  "k < length Qe \<Longrightarrow> k < length Qt \<Longrightarrow> squared_errors Qe Qt ! k = (Qe ! k - Qt ! k)\<^sup>2"
  by (simp add: squared_errors_def)

lemma squared_errors_length: "length (squared_errors Qe Qt) = min (length Qe) (length Qt)"
  by (simp add: squared_errors_def)

text \<open>
  C3 (amended). In the prioritized variant the loss is the mean over the batch of the
  squared errors each multiplied by its importance weight, and the values passed to
  \<^verbatim>\<open>update_priority\<close> are these weighted squared errors, each plus \<open>small_eps\<close>:
  for distinct slots, the slot of sample \<open>k\<close> receives
  \<open>(Qe ! k - Qt ! k)\<^sup>2 * w ! k + small_eps\<close>. \<^verbatim>\<open>learn\<close> records that loss and leaves
  the memory with these priorities.
\<close>

theorem prioritized_loss:
  "fst (mse_loss_prioritized ag Qe Qt index w) = mean (map2 (*) (squared_errors Qe Qt) w)
   \<and> snd (mse_loss_prioritized ag Qe Qt index w)
       = ag\<lparr>memory := update_priority (memory ag) index
                          (map (\<lambda>l. l + small_eps ag) (map2 (*) (squared_errors Qe Qt) w))\<rparr>
   \<and> (length Qe = length Qt \<and> length w = length Qt \<and> length index = length Qt \<and> distinct index \<longrightarrow>
        (\<forall>k. k < length Qt \<longrightarrow>
           map2 (*) (squared_errors Qe Qt) w ! k = (Qe ! k - Qt ! k)\<^sup>2 * w ! k
           \<and> priorities (memory (snd (mse_loss_prioritized ag Qe Qt index w))) (index ! k)
               = Some ((Qe ! k - Qt ! k)\<^sup>2 * w ! k + small_eps ag)))
   \<and> (\<forall>ag'. prioritized_memory ag \<and> learn env ag exps = Inr ag' \<longrightarrow>
        (\<exists>Qt' Qe'. Q_targets env ag (rows_of exps) = Inr Qt'
           \<and> Q_expected env (qnet_local ag) (rows_of exps) = Inr Qe'
           \<and> losses ag' = losses ag
               @ [mean (map2 (*) (squared_errors Qe' Qt') (weights_of exps))]
           \<and> memory ag' = update_priority (memory ag) (index_of exps)
                 (map (\<lambda>l. l + small_eps ag)
                    (map2 (*) (squared_errors Qe' Qt') (weights_of exps)))))"
proof (intro conjI allI impI)
  show "fst (mse_loss_prioritized ag Qe Qt index w) = mean (map2 (*) (squared_errors Qe Qt) w)"
    by (simp add: mse_loss_prioritized_def Let_def)
  show s: "snd (mse_loss_prioritized ag Qe Qt index w)
       = ag\<lparr>memory := update_priority (memory ag) index
                          (map (\<lambda>l. l + small_eps ag) (map2 (*) (squared_errors Qe Qt) w))\<rparr>"
    by (simp add: mse_loss_prioritized_def Let_def)
  fix k
  assume h: "length Qe = length Qt \<and> length w = length Qt \<and> length index = length Qt \<and> distinct index"
    and k: "k < length Qt"
  show v: "map2 (*) (squared_errors Qe Qt) w ! k = (Qe ! k - Qt ! k)\<^sup>2 * w ! k"
    using h k by (simp add: squared_errors_length squared_errors_nth)
  have "priorities (update_priority (memory ag) index
          (map (\<lambda>l. l + small_eps ag) (map2 (*) (squared_errors Qe Qt) w))) (index ! k)
        = Some (map (\<lambda>l. l + small_eps ag) (map2 (*) (squared_errors Qe Qt) w) ! k)"
    using h k by (intro update_priority_nth) (simp_all add: squared_errors_length)
  also have "map (\<lambda>l. l + small_eps ag) (map2 (*) (squared_errors Qe Qt) w) ! k
             = (Qe ! k - Qt ! k)\<^sup>2 * w ! k + small_eps ag"
    using h k v by (simp add: squared_errors_length)
  finally show "priorities (memory (snd (mse_loss_prioritized ag Qe Qt index w))) (index ! k)
               = Some ((Qe ! k - Qt ! k)\<^sup>2 * w ! k + small_eps ag)"
    by (simp add: s)
next
  fix ag'
  assume h: "prioritized_memory ag \<and> learn env ag exps = Inr ag'"
  then show "\<exists>Qt' Qe'. Q_targets env ag (rows_of exps) = Inr Qt'
           \<and> Q_expected env (qnet_local ag) (rows_of exps) = Inr Qe'
           \<and> losses ag' = losses ag
               @ [mean (map2 (*) (squared_errors Qe' Qt') (weights_of exps))]
           \<and> memory ag' = update_priority (memory ag) (index_of exps)
                 (map (\<lambda>l. l + small_eps ag)
                    (map2 (*) (squared_errors Qe' Qt') (weights_of exps)))"
    unfolding learn_def mse_loss_prioritized_def soft_update_def Let_def
    by (auto split: sum.splits experiences.splits prod.splits if_splits)
qed

theorem prioritized_loss_witness:
  "priorities (memory (snd (mse_loss_prioritized
       (toy_agent ((default_config 2 2)\<lparr>prioritized_memory := True\<rparr>)) [3, 1] [1, 0] [7, 4] [1 / 2, 2]))) 7
     = Some (2 + 1 / 100000)
   \<and> priorities (memory (snd (mse_loss_prioritized
       (toy_agent ((default_config 2 2)\<lparr>prioritized_memory := True\<rparr>)) [3, 1] [1, 0] [7, 4] [1 / 2, 2]))) 4
     = Some (2 + 1 / 100000)
   \<and> fst (mse_loss_prioritized
       (toy_agent ((default_config 2 2)\<lparr>prioritized_memory := True\<rparr>)) [3, 1] [1, 0] [7, 4] [1 / 2, 2])
     = 2"
proof -
  let ?ag = "toy_agent ((default_config 2 2)\<lparr>prioritized_memory := True\<rparr>)"
  have h: "length [3, 1 :: real] = length [1, 0 :: real] \<and> length [1 / 2, 2 :: real] = length [1, 0 :: real]
        \<and> length [7, 4 :: int] = length [1, 0 :: real] \<and> distinct [7, 4 :: int]"
    by simp
  have e: "small_eps ?ag = 1 / 100000"
    by (simp add: toy_agent_def init_def default_config_def)
  note t = prioritized_loss[of ?ag "[3, 1]" "[1, 0]" "[7, 4]" "[1 / 2, 2]"]
  from t h have k: "\<forall>k. k < length [1, 0 :: real] \<longrightarrow>
           priorities (memory (snd (mse_loss_prioritized ?ag [3, 1] [1, 0] [7, 4] [1 / 2, 2]))) ([7, 4] ! k)
               = Some (([3, 1] ! k - [1, 0] ! k)\<^sup>2 * [1 / 2, 2] ! k + small_eps ?ag)"
    by blast
  from k[rule_format, of 0] k[rule_format, of 1] e
  have "priorities (memory (snd (mse_loss_prioritized ?ag [3, 1] [1, 0] [7, 4] [1 / 2, 2]))) 7
          = Some (2 + 1 / 100000)"
    and "priorities (memory (snd (mse_loss_prioritized ?ag [3, 1] [1, 0] [7, 4] [1 / 2, 2]))) 4
          = Some (2 + 1 / 100000)"
    by simp_all
  moreover from t have "fst (mse_loss_prioritized ?ag [3, 1] [1, 0] [7, 4] [1 / 2, 2]) = 2"
    by (simp add: squared_errors_def mean_def)
  ultimately show ?thesis
    by simp
qed

text \<open>
  The claim C3 as written, priorities from the unweighted squared errors, fails: with
  expected value 3, target 1 and importance weight 0.5 the squared error is 4, and the
  priority written to the slot is \<open>4 * 0.5 + small_eps\<close>, not \<open>4 + small_eps\<close>.
\<close>

theorem priorities_are_weighted:
  "squared_errors [3] [1] = [4]
   \<and> small_eps (toy_agent ((default_config 2 2)\<lparr>prioritized_memory := True\<rparr>)) = 1 / 100000
   \<and> priorities (memory (snd (mse_loss_prioritized
         (toy_agent ((default_config 2 2)\<lparr>prioritized_memory := True\<rparr>)) [3] [1] [7] [1 / 2]))) 7
       = Some (2 + 1 / 100000)
   \<and> (2 + 1 / 100000 :: real) \<noteq> 4 + 1 / 100000"
  by (simp add: squared_errors_def mse_loss_prioritized_def update_priority_def Let_def
      toy_agent_def init_def default_config_def)

section \<open>The soft update of the target network\<close>

lemma soft_update_length: "length (qnet_target (soft_update ag)) = length (qnet_target ag)"
  by (simp add: soft_update_def)

lemma soft_update_nth:
  assumes "k < length (qnet_target ag)" and "k < length (qnet_local ag)"
  shows "qnet_target (soft_update ag) ! k
           = tau ag * qnet_local ag ! k + (1 - tau ag) * qnet_target ag ! k"
  using assms by (simp add: soft_update_def nth_append)

lemma soft_update_tail:
  assumes "k < length (qnet_target ag)" and "length (qnet_local ag) \<le> k"
  shows "qnet_target (soft_update ag) ! k = qnet_target ag ! k"
  using assms by (simp add: soft_update_def nth_append)

lemma soft_update_tau_1:
  assumes "tau ag = 1" and "length (qnet_local ag) = length (qnet_target ag)"
  shows "qnet_target (soft_update ag) = qnet_local ag"
  using assms by (intro nth_equalityI) (simp_all add: soft_update_length soft_update_nth)

lemma soft_update_tau_0:
  assumes "tau ag = 0"
  shows "qnet_target (soft_update ag) = qnet_target ag"
proof (intro nth_equalityI)
  show "length (qnet_target (soft_update ag)) = length (qnet_target ag)"
    by (rule soft_update_length)
  fix k
  assume "k < length (qnet_target (soft_update ag))"
  then have k: "k < length (qnet_target ag)"
    by (simp add: soft_update_length)
  show "qnet_target (soft_update ag) ! k = qnet_target ag ! k"
  proof (cases "k < length (qnet_local ag)")
    case True
    then show ?thesis using k assms by (simp add: soft_update_nth)
  next
    case False
    then show ?thesis using k by (simp add: soft_update_tail)
  qed
qed

lemma learn_soft_update:
  assumes "learn env ag exps = Inr ag'"
  shows "qnet_target ag' = qnet_target (soft_update (ag\<lparr>qnet_local := qnet_local ag'\<rparr>))"
  using learn_fields[OF assms] by (simp add: soft_update_def)

text \<open>
  C4. \<^verbatim>\<open>soft_update\<close> changes the target network only, keeps its shape, and sets the
  parameter at every position both networks have to
  \<open>tau * local_param + (1 - tau) * target_param\<close>; with \<open>tau = 1\<close> the target
  becomes the local network (of the same shape), with \<open>tau = 0\<close> it is unchanged.
  \<^verbatim>\<open>learn\<close> ends with the soft update toward the local parameters it has just
  stepped, and \<^verbatim>\<open>act\<close>, a \<^verbatim>\<open>step\<close> that does not learn and
  \<^verbatim>\<open>load_model\<close> leave the target network as it is.
\<close>

theorem soft_update_interpolates:
  "length (qnet_target (soft_update ag)) = length (qnet_target ag)
   \<and> (\<forall>k. k < length (qnet_target ag) \<and> k < length (qnet_local ag) \<longrightarrow>
        qnet_target (soft_update ag) ! k
          = tau ag * qnet_local ag ! k + (1 - tau ag) * qnet_target ag ! k)
   \<and> (tau ag = 1 \<and> length (qnet_local ag) = length (qnet_target ag) \<longrightarrow>
        qnet_target (soft_update ag) = qnet_local ag)
   \<and> (tau ag = 0 \<longrightarrow> qnet_target (soft_update ag) = qnet_target ag)
   \<and> soft_update ag = ag\<lparr>qnet_target := qnet_target (soft_update ag)\<rparr>
   \<and> (\<forall>ag'. learn env ag exps = Inr ag' \<longrightarrow>
        qnet_target ag' = qnet_target (soft_update (ag\<lparr>qnet_local := qnet_local ag'\<rparr>)))
   \<and> (\<forall>a ag'. act env ag state u k' = Inr (a, ag') \<longrightarrow> qnet_target ag' = qnet_target ag)
   \<and> (\<forall>ag'. step env ag state action reward next_state done episode sample = Inr ag'
          \<and> length (losses ag') = length (losses ag) \<longrightarrow>
        qnet_target ag' = qnet_target ag)
   \<and> (\<forall>ag'. load_model ag fs path = Inr ag' \<longrightarrow> qnet_target ag' = qnet_target ag)"
proof (intro conjI allI impI)
  show "length (qnet_target (soft_update ag)) = length (qnet_target ag)"
    by (rule soft_update_length)
  show "soft_update ag = ag\<lparr>qnet_target := qnet_target (soft_update ag)\<rparr>"
    by (rule soft_update_frame)
next
  fix k
  assume "k < length (qnet_target ag) \<and> k < length (qnet_local ag)"
  then show "qnet_target (soft_update ag) ! k
          = tau ag * qnet_local ag ! k + (1 - tau ag) * qnet_target ag ! k"
    by (simp add: soft_update_nth)
next
  assume "tau ag = 1 \<and> length (qnet_local ag) = length (qnet_target ag)"
  then show "qnet_target (soft_update ag) = qnet_local ag"
    by (simp add: soft_update_tau_1)
next
  assume "tau ag = 0"
  then show "qnet_target (soft_update ag) = qnet_target ag"
    by (rule soft_update_tau_0)
next
  fix ag'
  assume "learn env ag exps = Inr ag'"
  then show "qnet_target ag' = qnet_target (soft_update (ag\<lparr>qnet_local := qnet_local ag'\<rparr>))"
    by (rule learn_soft_update)
next
  fix a ag'
  assume "act env ag state u k' = Inr (a, ag')"
  from act_result(1)[OF this] show "qnet_target ag' = qnet_target ag"
    by (simp add: decay_eps_def)
next
  fix ag'
  assume h: "step env ag state action reward next_state done episode sample = Inr ag'
          \<and> length (losses ag') = length (losses ag)"
  then have s: "step env ag state action reward next_state done episode sample = Inr ag'"
    by simp
  note f = step_fields[OF s]
  have "\<not> ((t_step ag + 1) mod update_every ag = 0
            \<and> batch_size ag
                < mem_len (mem_add (memory ag) (preprocessed env state action reward next_state done)))"
    using f h by (auto split: if_splits)
  from step_no_learn[OF _ this, of episode sample] f s show "qnet_target ag' = qnet_target ag"
    by auto
next
  fix ag'
  assume "load_model ag fs path = Inr ag'"
  from load_model_fields[OF this] show "qnet_target ag' = qnet_target ag"
    by simp
qed

theorem soft_update_interpolates_witness:
  "qnet_target (soft_update ((toy_agent (default_config 2 2))\<lparr>tau := 1\<rparr>)) = [1, 3]
   \<and> qnet_target (soft_update ((toy_agent (default_config 2 2))\<lparr>tau := 0\<rparr>)) = [2, 0]
   \<and> qnet_target (soft_update ((toy_agent (default_config 2 2))\<lparr>tau := 1 / 4\<rparr>)) ! 0 = 7 / 4"
proof -
  let ?ag = "toy_agent (default_config 2 2)"
  have f: "qnet_local ?ag = [1, 3]" "qnet_target ?ag = [2, 0]"
    by (simp_all add: toy_agent_def init_def)
  have 1: "tau (?ag\<lparr>tau := 1\<rparr>) = 1
      \<and> length (qnet_local (?ag\<lparr>tau := 1\<rparr>)) = length (qnet_target (?ag\<lparr>tau := 1\<rparr>))"
    using f by simp
  have 0: "tau (?ag\<lparr>tau := 0\<rparr>) = 0"
    by simp
  have q: "0 < length (qnet_target (?ag\<lparr>tau := 1 / 4\<rparr>))
      \<and> 0 < length (qnet_local (?ag\<lparr>tau := 1 / 4\<rparr>))"
    using f by simp
  have "qnet_target (soft_update (?ag\<lparr>tau := 1\<rparr>)) = qnet_local (?ag\<lparr>tau := 1\<rparr>)"
    using soft_update_interpolates[of "?ag\<lparr>tau := 1\<rparr>"] 1 by blast
  moreover have "qnet_target (soft_update (?ag\<lparr>tau := 0\<rparr>)) = qnet_target (?ag\<lparr>tau := 0\<rparr>)"
    using soft_update_interpolates[of "?ag\<lparr>tau := 0\<rparr>"] 0 by blast
  moreover have "qnet_target (soft_update (?ag\<lparr>tau := 1 / 4\<rparr>)) ! 0
      = tau (?ag\<lparr>tau := 1 / 4\<rparr>) * qnet_local (?ag\<lparr>tau := 1 / 4\<rparr>) ! 0
        + (1 - tau (?ag\<lparr>tau := 1 / 4\<rparr>)) * qnet_target (?ag\<lparr>tau := 1 / 4\<rparr>) ! 0"
    using soft_update_interpolates[of "?ag\<lparr>tau := 1 / 4\<rparr>"] q by blast
  ultimately show ?thesis
    using f by simp
qed

section \<open>Saving and loading\<close>

text \<open>
  C8. \<^verbatim>\<open>save_model\<close> writes the local network's parameters to the path and nothing
  that depends on the target network, the memory or the optimizer; a \<^verbatim>\<open>load_model\<close>
  that returns has replaced the local parameters by the file's and left the target network
  and the memory as they were. Saving one agent and loading into another of the same shape
  gives the second the first one's local parameters, hence the same arg-max action on every
  state, and the same action from \<^verbatim>\<open>act\<close> when neither explores.
\<close>

theorem save_load_model:
  "save_model ag fs path path = Some (qnet_local ag)
   \<and> (\<forall>p. p \<noteq> path \<longrightarrow> save_model ag fs path p = fs p)
   \<and> save_model (ag\<lparr>qnet_target := target', memory := memory', optimizer := optimizer'\<rparr>) fs path
       = save_model ag fs path
   \<and> (\<forall>ag'. load_model ag fs path = Inr ag' \<longrightarrow>
        fs path = Some (qnet_local ag') \<and> ag' = ag\<lparr>qnet_local := qnet_local ag'\<rparr>
        \<and> qnet_target ag' = qnet_target ag \<and> memory ag' = memory ag)
   \<and> (length (qnet_local fresh) = length (qnet_local ag) \<longrightarrow>
        load_model fresh (save_model ag fs path) path = Inr (fresh\<lparr>qnet_local := qnet_local ag\<rparr>)
        \<and> (\<forall>states.
              map (\<lambda>s. argmax (qnet env (qnet_local (fresh\<lparr>qnet_local := qnet_local ag\<rparr>))
                                 (prep_state env s))) states
              = map (\<lambda>s. argmax (qnet env (qnet_local ag) (prep_state env s))) states)
        \<and> (\<not> epsilon_enabled fresh \<and> \<not> epsilon_enabled ag \<longrightarrow>
             (\<forall>s u k. map_sum id fst (act env (fresh\<lparr>qnet_local := qnet_local ag\<rparr>) s u k)
                      = map_sum id fst (act env ag s u k))))"
proof (intro conjI allI impI)
  show "save_model ag fs path path = Some (qnet_local ag)"
    by (simp add: save_model_def)
  show "save_model (ag\<lparr>qnet_target := target', memory := memory', optimizer := optimizer'\<rparr>) fs path
       = save_model ag fs path"
    by (simp add: save_model_def)
next
  fix p
  assume "p \<noteq> path"
  then show "save_model ag fs path p = fs p"
    by (simp add: save_model_def)
next
  fix ag'
  assume l: "load_model ag fs path = Inr ag'"
  from load_model_fields[OF l] show "fs path = Some (qnet_local ag')"
    "qnet_target ag' = qnet_target ag" "memory ag' = memory ag"
    by simp_all
  from l show "ag' = ag\<lparr>qnet_local := qnet_local ag'\<rparr>"
    by (auto simp: load_model_def split: option.splits if_splits)
next
  assume "length (qnet_local fresh) = length (qnet_local ag)"
  then show "load_model fresh (save_model ag fs path) path = Inr (fresh\<lparr>qnet_local := qnet_local ag\<rparr>)"
    by (simp add: load_model_def save_model_def)
next
  fix states
  show "map (\<lambda>s. argmax (qnet env (qnet_local (fresh\<lparr>qnet_local := qnet_local ag\<rparr>))
                                 (prep_state env s))) states
              = map (\<lambda>s. argmax (qnet env (qnet_local ag) (prep_state env s))) states"
    by simp
next
  fix s u k
  assume "\<not> epsilon_enabled fresh \<and> \<not> epsilon_enabled ag"
  then show "map_sum id fst (act env (fresh\<lparr>qnet_local := qnet_local ag\<rparr>) s u k)
                      = map_sum id fst (act env ag s u k)"
    by (simp add: act_def Let_def split: sum.splits)
qed

theorem save_load_model_witness:
  "load_model (init ((default_config 2 2)\<lparr>epsilon_enabled := False\<rparr>) [0, 0] [0, 0] (0::nat))
      (save_model (toy_agent (default_config 2 2)) Map.empty ''model.pt'') ''model.pt''
     = Inr ((init ((default_config 2 2)\<lparr>epsilon_enabled := False\<rparr>) [0, 0] [0, 0] 0)
              \<lparr>qnet_local := [1, 3]\<rparr>)
   \<and> argmax (qnet toy_env [1, 3] (prep_state toy_env [5])) = Inr 1"
proof -
  let ?ag = "toy_agent (default_config 2 2)"
  let ?fresh = "init ((default_config 2 2)\<lparr>epsilon_enabled := False\<rparr>) [0, 0] [0, 0] (0::nat)"
  have l: "length (qnet_local ?fresh) = length (qnet_local ?ag)" and q: "qnet_local ?ag = [1, 3]"
    by (simp_all add: toy_agent_def init_def)
  have "load_model ?fresh (save_model ?ag Map.empty ''model.pt'') ''model.pt''
          = Inr (?fresh\<lparr>qnet_local := qnet_local ?ag\<rparr>)"
    using save_load_model[of ?ag Map.empty "''model.pt''" _ _ _ ?fresh] l by blast
  moreover have "argmax (qnet toy_env [1, 3] (prep_state toy_env [5])) = Inr 1"
    by (simp add: toy_env_def)
  ultimately show ?thesis
    using q by simp
qed

section \<open>The log line\<close>

lemma logs_no_losses:
  "losses ag = [] \<Longrightarrow>
   logs env ag = ''Epsilon: '' @ format_2f env (epsilon ag) @ [CHR 0x09] @ ''Avg. MSE Loss: inf''"
  by (simp add: logs_def)

lemma logs_value:
  "losses ag \<noteq> [] \<Longrightarrow>
   logs env ag = ''Epsilon: '' @ format_2f env (epsilon ag) @ [CHR 0x09] @ ''Avg. MSE Loss: ''
     @ str_int (py_int (mean (drop (length (losses ag) - 100) (losses ag)))) @ ''.00''"
  by (simp add: logs_def)

text \<open>
  C9. \<^verbatim>\<open>logs\<close> is meant to report the mean of the last 100 losses with two decimals.
  It converts the mean with \<^verbatim>\<open>int\<close> before formatting it: after one loss of 0.75 the
  line ends with \<^verbatim>\<open>Avg. MSE Loss: 0.00\<close>, the same line as after one loss of 0.25.
\<close>

theorem logs_truncates_mean:
  "mean [3 / 4] = 3 / 4
   \<and> logs env (ag\<lparr>losses := [3 / 4]\<rparr>)
       = ''Epsilon: '' @ format_2f env (epsilon ag) @ [CHR 0x09] @ ''Avg. MSE Loss: 0.00''
   \<and> logs env (ag\<lparr>losses := [1 / 4]\<rparr>) = logs env (ag\<lparr>losses := [3 / 4]\<rparr>)"
  by (simp add: logs_def mean_def py_int_def str_int_def)

end
